theory Spec2Isabelle
  imports Complex_Main "HOL-Library.AList"
begin

section \<open>Python values\<close>

text \<open>
  The handlers work on loosely typed JSON-like data: request bodies, table items and
  response bodies are all Python dicts. A Python value is modelled by \<open>pyval\<close>; a dict
  with string keys is an association list, looked up with \<open>map_of\<close> and updated with
  \<open>AList.update\<close>. A \<open>char\<close> of a string stands for one character of the Python \<open>str\<close>,
  so \<open>length\<close> is Python's \<open>len\<close> and \<open>take n\<close> is the slice \<open>[:n]\<close>.
\<close>

datatype pyfloat = Finite real | PosInf | NegInf | NaN

datatype pyval =
    PNone
  | PBool bool
  | PInt int
  | PFloat pyfloat
  | PStr string
  | PList "pyval list"
  | PDict "(string \<times> pyval) list"

type_synonym pydict = "(string \<times> pyval) list"

text \<open>Python truthiness, as used by \<open>if not x\<close> and \<open>all([...])\<close>.\<close>

fun truthy :: "pyval \<Rightarrow> bool" where
  "truthy PNone = False"
| "truthy (PBool b) = b"
| "truthy (PInt i) = (i \<noteq> 0)"
| "truthy (PFloat f) = (f \<noteq> Finite 0)"
| "truthy (PStr s) = (s \<noteq> [])"
| "truthy (PList xs) = (xs \<noteq> [])"
| "truthy (PDict d) = (d \<noteq> [])"

text \<open>\<open>d.get(k)\<close> is \<open>None\<close> for a missing key; \<open>d.get(k, dflt)\<close> is \<open>dflt\<close>.\<close>

definition dict_get :: "pydict \<Rightarrow> string \<Rightarrow> pyval" where
  "dict_get d k = (case map_of d k of None \<Rightarrow> PNone | Some v \<Rightarrow> v)"

definition dict_get_default :: "pydict \<Rightarrow> string \<Rightarrow> pyval \<Rightarrow> pyval" where
  "dict_get_default d k dflt = (case map_of d k of None \<Rightarrow> dflt | Some v \<Rightarrow> v)"

subsection \<open>Exceptions\<close>

text \<open>An exception is its class and its message \<open>str(e)\<close>.\<close>

datatype exn_kind =
  KeyError | AttributeError | TypeError | ValueError | JSONDecodeError | ClientError
  | ParamValidationError | ServiceError

datatype exn = Exn exn_kind string

fun str_exn :: "exn \<Rightarrow> string" where
  "str_exn (Exn k m) = m"

fun exn_class :: "exn \<Rightarrow> exn_kind" where
  "exn_class (Exn k m) = k"

definition squote :: string where
  "squote = [CHR 0x27]"

fun type_name :: "pyval \<Rightarrow> string" where
  "type_name PNone = ''NoneType''"
| "type_name (PBool b) = ''bool''"
| "type_name (PInt i) = ''int''"
| "type_name (PFloat f) = ''float''"
| "type_name (PStr s) = ''str''"
| "type_name (PList xs) = ''list''"
| "type_name (PDict d) = ''dict''"

definition attribute_error :: "pyval \<Rightarrow> string \<Rightarrow> exn" where
  "attribute_error v a =
     Exn AttributeError
       (squote @ type_name v @ squote @ '' object has no attribute '' @ squote @ a @ squote)"

text \<open>\<open>v.get(k, dflt)\<close> on a value that need not be a dict.\<close>

fun py_get :: "pyval \<Rightarrow> string \<Rightarrow> pyval \<Rightarrow> exn + pyval" where
  "py_get (PDict d) k dflt = Inr (dict_get_default d k dflt)"
| "py_get v k dflt = Inl (attribute_error v ''get'')"

subsection \<open>String methods\<close>

text \<open>
  \<open>str.strip()\<close> removes leading and trailing whitespace; the whitespace characters
  below are those of Python's \<open>str.isspace\<close> in the 8-bit range.
\<close>

definition py_isspace :: "char \<Rightarrow> bool" where
  "py_isspace c =
     (let n = (of_char c :: nat)
      in (9 \<le> n \<and> n \<le> 13) \<or> (28 \<le> n \<and> n \<le> 32) \<or> n = 133 \<or> n = 160)"

definition strip :: "string \<Rightarrow> string" where
  "strip s = rev (dropWhile py_isspace (rev (dropWhile py_isspace s)))"

fun py_strip :: "pyval \<Rightarrow> exn + string" where
  "py_strip (PStr s) = Inr (strip s)"
| "py_strip v = Inl (attribute_error v ''strip'')"

definition lower_char :: "char \<Rightarrow> char" where
  "lower_char c =
     (let n = (of_char c :: nat)
      in if 65 \<le> n \<and> n \<le> 90 then char_of (n + 32) else c)"

definition lower :: "string \<Rightarrow> string" where
  "lower s = map lower_char s"

text \<open>\<open>s.split(sep)\<close> for a one-character separator: always at least one part.\<close>

fun split :: "char \<Rightarrow> string \<Rightarrow> string list" where
  "split sep [] = [[]]"
| "split sep (c # cs) =
     (if c = sep then [] # split sep cs
      else (case split sep cs of p # ps \<Rightarrow> (c # p) # ps | [] \<Rightarrow> [[c]]))"

subsection \<open>Dates\<close>

record datetime =
  year :: nat
  month :: nat
  day :: nat
  hour :: nat
  minute :: nat
  second :: nat
  microsecond :: nat

definition digit :: "nat \<Rightarrow> char" where
  "digit n = ''0123456789'' ! (n mod 10)"

text \<open>\<open>zpad k n\<close>: the last \<open>k\<close> decimal digits of \<open>n\<close>, zero-padded (\<open>%02d\<close>, \<open>%04d\<close>).\<close>

fun zpad :: "nat \<Rightarrow> nat \<Rightarrow> string" where
  "zpad 0 n = []"
| "zpad (Suc k) n = zpad k (n div 10) @ [digit n]"

definition isoformat :: "datetime \<Rightarrow> string" where
  "isoformat d =
     zpad 4 (year d) @ ''-'' @ zpad 2 (month d) @ ''-'' @ zpad 2 (day d) @ ''T'' @
     zpad 2 (hour d) @ '':'' @ zpad 2 (minute d) @ '':'' @ zpad 2 (second d) @
     (if microsecond d = 0 then [] else ''.'' @ zpad 6 (microsecond d))"

text \<open>\<open>strftime('%Y/%m/%d')\<close>.\<close>

definition strftime_ymd :: "datetime \<Rightarrow> string" where
  "strftime_ymd d = zpad 4 (year d) @ ''/'' @ zpad 2 (month d) @ ''/'' @ zpad 2 (day d)"

section \<open>The world outside a handler invocation\<close>

text \<open>
  All durable state is external. \<open>table\<close> is the metadata table keyed by \<open>documentId\<close>,
  \<open>blobs\<close> the keys present in the documents bucket. \<open>uuids\<close> and \<open>ticks\<close> count the
  identifiers drawn and the clock readings taken so far, \<open>calls\<close> records every
  invocation of the OCR and LLM adapters, and \<open>logs\<close> what the handlers print.
\<close>

datatype call =
    OcrCall string string
  | SummarizeCall pyval int
  | AnswerCall pyval string
  | EntitiesCall pyval
  | QuestionsCall pyval int

datatype logline =
    LogProcessing string string
  | LogNoDocumentId string
  | LogExtracted int string
  | LogExtractError string string
  | LogError string
  | LogS3Warning string

record world =
  table :: "string \<rightharpoonup> pydict"
  blobs :: "string set"
  uuids :: nat
  ticks :: nat
  calls :: "call list"
  logs :: "logline list"

record ocr_result =
  ocr_text :: string
  ocr_line_count :: int
  ocr_word_count :: int
  ocr_confidence :: pyfloat

text \<open>
  What the surroundings answer during one invocation: the library functions the code
  calls (\<open>uuid.uuid4\<close>, \<open>datetime.utcnow\<close>, \<open>str\<close> and \<open>float\<close> on floats, \<open>int\<close> on
  strings, \<open>urllib.parse.unquote_plus\<close>, the URL signer), the adapters of
  \<open>utils/textract.py\<close> and \<open>utils/bedrock.py\<close> seen at their function boundary (a result
  or a raised exception), the store failures that the source itself catches, and the
  table's refusal of an item handed to \<open>put_item\<close>.
\<close>

record env =
  uuid4 :: "nat \<Rightarrow> string"
  utcnow :: "nat \<Rightarrow> datetime"
  str_float :: "pyfloat \<Rightarrow> string"
  float_str :: "string \<Rightarrow> exn + pyfloat"
  int_str :: "string \<Rightarrow> exn + int"
  unquote_plus :: "string \<Rightarrow> string"
  generate_presigned_url :: "string \<Rightarrow> pydict \<Rightarrow> string"
  extract_text_from_s3 :: "string \<Rightarrow> string \<Rightarrow> exn + ocr_result"
  summarize_document :: "pyval \<Rightarrow> int \<Rightarrow> exn + string"
  answer_question :: "pyval \<Rightarrow> string \<Rightarrow> exn + (string \<times> string)"
  extract_key_entities :: "pyval \<Rightarrow> exn + pyval"
  generate_document_questions :: "pyval \<Rightarrow> int \<Rightarrow> exn + string list"
  s3_delete_error :: "string \<Rightarrow> exn option"
  ddb_delete_error :: "string \<Rightarrow> exn option"
  ddb_append_error :: "string \<Rightarrow> exn option"
  ddb_put_error :: "pydict \<Rightarrow> exn option"

section \<open>utils/dynamodb.py\<close>

text \<open>
  \<open>update_item\<close> with a \<open>SET\<close> expression writes the named attributes into the item
  with the given key and creates the item when there is none; \<open>put_item\<close> replaces the
  whole item.
\<close>

definition item_or_new :: "world \<Rightarrow> string \<Rightarrow> pydict" where
  "item_or_new w document_id =
     (case table w document_id of
        None \<Rightarrow> [(''documentId'', PStr document_id)]
      | Some d \<Rightarrow> d)"

definition set_attrs :: "pydict \<Rightarrow> pydict \<Rightarrow> pydict" where
  "set_attrs sets d = fold (\<lambda>kv. AList.update (fst kv) (snd kv)) sets d"

text \<open>
  \<open>put_item\<close> serialises the item before it is sent: a Python float anywhere in it is
  refused with a \<open>TypeError\<close>. The table itself may refuse the item too
  (\<open>ddb_put_error\<close>).
\<close>

primrec has_float :: "pyval \<Rightarrow> bool" where
  "has_float PNone = False"
| "has_float (PBool b) = False"
| "has_float (PInt i) = False"
| "has_float (PFloat f) = True"
| "has_float (PStr s) = False"
| "has_float (PList xs) = list_ex id (map has_float xs)"
| "has_float (PDict d) = list_ex snd (map (map_prod id has_float) d)"

definition put_item_error :: "env \<Rightarrow> pydict \<Rightarrow> exn option" where
  "put_item_error env item =
     (if list_ex (\<lambda>kv. has_float (snd kv)) item
      then Some (Exn TypeError ''Float types are not supported. Use Decimal types instead.'')
      else ddb_put_error env item)"

text \<open>The item that \<open>create_document\<close> builds.\<close>

definition document_item ::
  "env \<Rightarrow> string \<Rightarrow> pyval \<Rightarrow> pyval \<Rightarrow> pyval \<Rightarrow> pyval \<Rightarrow> world \<Rightarrow> pydict" where
  "document_item env user_id filename s3_key content_type file_size w =
     (let document_id = uuid4 env (uuids w);
          timestamp = isoformat (utcnow env (ticks w))
      in [(''documentId'', PStr document_id),
          (''userId'', PStr user_id),
          (''filename'', filename),
          (''s3Key'', s3_key),
          (''contentType'', content_type),
          (''fileSize'', file_size),
          (''status'', PStr ''UPLOADED''),
          (''createdAt'', PStr timestamp),
          (''updatedAt'', PStr timestamp)])"

definition create_document ::
  "env \<Rightarrow> string \<Rightarrow> pyval \<Rightarrow> pyval \<Rightarrow> pyval \<Rightarrow> pyval \<Rightarrow> world
     \<Rightarrow> (exn + pydict) \<times> world" where
  "create_document env user_id filename s3_key content_type file_size w =
     (let item = document_item env user_id filename s3_key content_type file_size w;
          w1 = w\<lparr>uuids := Suc (uuids w), ticks := Suc (ticks w)\<rparr>
      in case put_item_error env item of
           Some e \<Rightarrow> (Inl e, w1)
         | None \<Rightarrow> (Inr item, w1\<lparr>table := (table w)(uuid4 env (uuids w) \<mapsto> item)\<rparr>))"

definition update_document_status ::
  "env \<Rightarrow> string \<Rightarrow> string \<Rightarrow> pydict \<Rightarrow> world \<Rightarrow> pydict \<times> world" where
  "update_document_status env document_id status metadata w =
     (let sets = [(''status'', PStr status),
                  (''updatedAt'', PStr (isoformat (utcnow env (ticks w))))] @ metadata;
          item = set_attrs sets (item_or_new w document_id)
      in (item, w\<lparr>table := (table w)(document_id \<mapsto> item), ticks := Suc (ticks w)\<rparr>))"

definition get_document :: "world \<Rightarrow> string \<Rightarrow> pydict option" where
  "get_document w document_id = table w document_id"

definition delete_document :: "env \<Rightarrow> string \<Rightarrow> world \<Rightarrow> bool \<times> world" where
  "delete_document env document_id w =
     (case ddb_delete_error env document_id of
        None \<Rightarrow> (True, w\<lparr>table := (table w)(document_id := None)\<rparr>)
      | Some e \<Rightarrow> (False, w))"

text \<open>Reading one attribute of a stored record; \<open>PNone\<close> when the record or the attribute is missing.\<close>

definition attr :: "world \<Rightarrow> string \<Rightarrow> string \<Rightarrow> pyval" where
  "attr w document_id k =
     (case table w document_id of None \<Rightarrow> PNone | Some d \<Rightarrow> dict_get d k)"

definition store_extracted_text ::
  "env \<Rightarrow> string \<Rightarrow> string \<Rightarrow> int \<Rightarrow> pyfloat \<Rightarrow> world \<Rightarrow> pydict \<times> world" where
  "store_extracted_text env document_id txt wc conf w =
     update_document_status env document_id ''EXTRACTED''
       [(''extractedText'', PStr (take 50000 txt)),
        (''wordCount'', PInt wc),
        (''ocrConfidence'', PStr (str_float env conf)),
        (''textLength'', PInt (int (length txt)))] w"

definition store_summary :: "env \<Rightarrow> string \<Rightarrow> string \<Rightarrow> world \<Rightarrow> pydict \<times> world" where
  "store_summary env document_id summary w =
     update_document_status env document_id ''COMPLETED'' [(''summary'', PStr summary)] w"

text \<open>
  \<open>add_query_to_history\<close>: first \<open>SET queryHistory = list_append(if_not_exists(queryHistory,
  :empty), :query)\<close>, which the store rejects when \<open>queryHistory\<close> is not a list and which
  can fail for the store's own reasons (\<open>ddb_append_error\<close>); on any exception the
  \<open>except\<close> branch runs \<open>SET queryHistory = :query\<close>.
\<close>

definition list_append_history :: "env \<Rightarrow> string \<Rightarrow> pyval \<Rightarrow> world \<Rightarrow> exn + world" where
  "list_append_history env document_id query_item w =
     (case ddb_append_error env document_id of
        Some e \<Rightarrow> Inl e
      | None \<Rightarrow>
          (let d = item_or_new w document_id
           in case map_of d ''queryHistory'' of
                None \<Rightarrow>
                  Inr (w\<lparr>table := (table w)(document_id \<mapsto>
                         AList.update ''queryHistory'' (PList [query_item]) d)\<rparr>)
              | Some (PList h) \<Rightarrow>
                  Inr (w\<lparr>table := (table w)(document_id \<mapsto>
                         AList.update ''queryHistory'' (PList (h @ [query_item])) d)\<rparr>)
              | Some v \<Rightarrow>
                  Inl (Exn ClientError ''An operand in the update expression has an incorrect data type'')))"

definition add_query_to_history :: "env \<Rightarrow> string \<Rightarrow> string \<Rightarrow> string \<Rightarrow> world \<Rightarrow> world" where
  "add_query_to_history env document_id question answer w =
     (let timestamp = isoformat (utcnow env (ticks w));
          query_item = PDict [(''question'', PStr question),
                              (''answer'', PStr answer),
                              (''timestamp'', PStr timestamp)];
          w1 = w\<lparr>ticks := Suc (ticks w)\<rparr>
      in case list_append_history env document_id query_item w1 of
           Inr w2 \<Rightarrow> w2
         | Inl e \<Rightarrow>
             w1\<lparr>table := (table w1)(document_id \<mapsto>
                  AList.update ''queryHistory'' (PList [query_item])
                    (item_or_new w1 document_id))\<rparr>)"

section \<open>Requests and responses\<close>

text \<open>
  The invocation event. A field is \<open>None\<close> when the key is missing or \<open>null\<close>. \<open>claims\<close>
  is \<open>requestContext.authorizer.claims\<close> when the authorizer has it. The request body
  is taken as \<open>json.loads\<close> leaves it: absent (the default \<open>'{}'\<close> is then decoded),
  \<open>null\<close> (a \<open>TypeError\<close>), undecodable (a \<open>JSONDecodeError\<close>) or a decoded value.
\<close>

datatype body = NoBody | NullBody | BadJson string | Body pyval

record s3record =
  bucket_name :: string
  object_key :: string

record event =
  Records :: "s3record list option"
  httpMethod :: "string option"
  pathParameters :: "(string \<times> string) list option"
  queryStringParameters :: "(string \<times> string) list option"
  headers :: "(string \<times> string) list option"
  claims :: "(string \<times> string) list option"
  body :: body

datatype rbody = JsonBody pydict | TextBody string

record http_response =
  statusCode :: nat
  rheaders :: "(string \<times> string) list option"
  rbody :: rbody

definition BUCKET_NAME :: string where
  "BUCKET_NAME = ''documind-documents''"

definition response :: "nat \<Rightarrow> pydict \<Rightarrow> http_response" where
  "response status_code b =
     \<lparr>statusCode = status_code,
      rheaders = Some [(''Content-Type'', ''application/json''),
                       (''Access-Control-Allow-Origin'', ''*''),
                       (''Access-Control-Allow-Headers'', ''Content-Type,X-User-Id,Authorization''),
                       (''Access-Control-Allow-Methods'', ''GET,POST,OPTIONS'')],
      rbody = JsonBody b\<rparr>"

definition documents_response :: "nat \<Rightarrow> pydict \<Rightarrow> http_response" where
  "documents_response status_code b =
     \<lparr>statusCode = status_code,
      rheaders = Some [(''Content-Type'', ''application/json''),
                       (''Access-Control-Allow-Origin'', ''*''),
                       (''Access-Control-Allow-Headers'', ''Content-Type,X-User-Id,Authorization''),
                       (''Access-Control-Allow-Methods'', ''GET,POST,DELETE,OPTIONS'')],
      rbody = JsonBody b\<rparr>"

text \<open>\<open>event.get(name, {}) or {}\<close>.\<close>

definition or_empty :: "(string \<times> string) list option \<Rightarrow> (string \<times> string) list" where
  "or_empty p = (case p of None \<Rightarrow> [] | Some d \<Rightarrow> d)"

text \<open>\<open>not s\<close> for an optional string.\<close>

definition str_truthy :: "string option \<Rightarrow> bool" where
  "str_truthy s = (case s of None \<Rightarrow> False | Some v \<Rightarrow> v \<noteq> [])"

definition get_default :: "(string \<times> string) list \<Rightarrow> string \<Rightarrow> string \<Rightarrow> string" where
  "get_default d k dflt = (case map_of d k of None \<Rightarrow> dflt | Some v \<Rightarrow> v)"

definition get_user_id :: "event \<Rightarrow> string" where
  "get_user_id ev =
     (case claims ev of
        Some c \<Rightarrow> get_default c ''sub'' ''anonymous''
      | None \<Rightarrow> get_default (or_empty (headers ev)) ''X-User-Id'' ''anonymous'')"

text \<open>\<open>json.loads(event.get('body', '{}'))\<close>.\<close>

definition loads_body :: "body \<Rightarrow> exn + pyval" where
  "loads_body b =
     (case b of
        NoBody \<Rightarrow> Inr (PDict [])
      | NullBody \<Rightarrow>
          Inl (Exn TypeError ''the JSON object must be str, bytes or bytearray, not NoneType'')
      | BadJson m \<Rightarrow> Inl (Exn JSONDecodeError m)
      | Body v \<Rightarrow> Inr v)"

text \<open>\<open>float(v)\<close> and \<open>int(v)\<close> on the values the handlers pass.\<close>

definition py_float :: "env \<Rightarrow> pyval \<Rightarrow> exn + pyfloat" where
  "py_float env v =
     (case v of
        PStr s \<Rightarrow> float_str env s
      | PInt i \<Rightarrow> Inr (Finite (of_int i))
      | PFloat f \<Rightarrow> Inr f
      | PBool b \<Rightarrow> Inr (Finite (if b then 1 else 0))
      | _ \<Rightarrow>
          Inl (Exn TypeError
                (''float() argument must be a string or a real number, not ''
                 @ squote @ type_name v @ squote)))"

section \<open>handlers/extract.py\<close>

text \<open>
  One pass of the loop of \<open>handle_s3_event\<close>. The adapter call and the storing of its
  result stand in a \<open>try\<close> whose \<open>except\<close> branch records \<open>FAILED\<close>.
\<close>

definition s3_event_record :: "env \<Rightarrow> s3record \<Rightarrow> world \<Rightarrow> world" where
  "s3_event_record env r w =
     (let bucket = bucket_name r;
          key = unquote_plus env (object_key r);
          w0 = w\<lparr>logs := logs w @ [LogProcessing bucket key]\<rparr>;
          parts = split CHR ''/'' key
      in if length parts \<ge> 4 then
           (let document_id = parts ! 3;
                w1 = snd (update_document_status env document_id ''PROCESSING'' [] w0);
                w2 = w1\<lparr>calls := calls w1 @ [OcrCall bucket key]\<rparr>
            in case extract_text_from_s3 env bucket key of
                 Inr result \<Rightarrow>
                   (let w3 = snd (store_extracted_text env document_id (ocr_text result)
                                    (ocr_word_count result) (ocr_confidence result) w2)
                    in w3\<lparr>logs := logs w3 @ [LogExtracted (ocr_word_count result) document_id]\<rparr>)
               | Inl e \<Rightarrow>
                   snd (update_document_status env document_id ''FAILED''
                          [(''errorMessage'', PStr (str_exn e))]
                          (w2\<lparr>logs := logs w2 @ [LogExtractError document_id (str_exn e)]\<rparr>)))
         else w0\<lparr>logs := logs w0 @ [LogNoDocumentId key]\<rparr>)"

fun s3_event_loop :: "env \<Rightarrow> s3record list \<Rightarrow> world \<Rightarrow> world" where
  "s3_event_loop env [] w = w"
| "s3_event_loop env (r # rs) w = s3_event_loop env rs (s3_event_record env r w)"

definition handle_s3_event :: "env \<Rightarrow> event \<Rightarrow> world \<Rightarrow> http_response \<times> world" where
  "handle_s3_event env ev w =
     (\<lparr>statusCode = 200, rheaders = None, rbody = TextBody ''Processing complete''\<rparr>,
      s3_event_loop env (case Records ev of None \<Rightarrow> [] | Some rs \<Rightarrow> rs) w)"

text \<open>The \<open>try\<close> block of \<open>handle_api_request\<close>: the adapter call on \<open>document['s3Key']\<close>.\<close>

definition extract_document :: "env \<Rightarrow> pydict \<Rightarrow> world \<Rightarrow> (exn + ocr_result) \<times> world" where
  "extract_document env document w =
     (case map_of document ''s3Key'' of
        None \<Rightarrow> (Inl (Exn KeyError (squote @ ''s3Key'' @ squote)), w)
      | Some (PStr s3_key) \<Rightarrow>
          (extract_text_from_s3 env BUCKET_NAME s3_key,
           w\<lparr>calls := calls w @ [OcrCall BUCKET_NAME s3_key]\<rparr>)
      | Some v \<Rightarrow>
          (Inl (Exn ParamValidationError ''Parameter validation failed''), w))"

definition handle_api_request ::
  "env \<Rightarrow> event \<Rightarrow> world \<Rightarrow> (exn + http_response) \<times> world" where
  "handle_api_request env ev w =
     (let path_params = or_empty (pathParameters ev);
          document_id = map_of path_params ''documentId''
      in if \<not> str_truthy document_id then
           (Inr (response 400 [(''error'', PStr ''documentId is required'')]), w)
         else
           (let doc_id = the document_id
            in case get_document w doc_id of
                 None \<Rightarrow> (Inr (response 404 [(''error'', PStr ''Document not found'')]), w)
               | Some document \<Rightarrow>
                   if document = [] then
                     (Inr (response 404 [(''error'', PStr ''Document not found'')]), w)
                   else if dict_get document ''status'' = PStr ''EXTRACTED''
                           \<and> truthy (dict_get document ''extractedText'') then
                     (case py_float env (dict_get_default document ''ocrConfidence'' (PInt 0)) of
                        Inl e \<Rightarrow> (Inl e, w)
                      | Inr c \<Rightarrow>
                          (Inr (response 200
                                  [(''documentId'', PStr doc_id),
                                   (''text'', dict_get document ''extractedText''),
                                   (''wordCount'', dict_get_default document ''wordCount'' (PInt 0)),
                                   (''confidence'', PFloat c),
                                   (''cached'', PBool True)]), w))
                   else
                     (let w1 = snd (update_document_status env doc_id ''PROCESSING'' [] w)
                      in case extract_document env document w1 of
                           (Inr result, w2) \<Rightarrow>
                             (Inr (response 200
                                     [(''documentId'', PStr doc_id),
                                      (''text'', PStr (ocr_text result)),
                                      (''wordCount'', PInt (ocr_word_count result)),
                                      (''confidence'', PFloat (ocr_confidence result)),
                                      (''cached'', PBool False)]),
                              snd (store_extracted_text env doc_id (ocr_text result)
                                     (ocr_word_count result) (ocr_confidence result) w2))
                         | (Inl e, w2) \<Rightarrow>
                             (Inr (response 500
                                     [(''error'', PStr ''Text extraction failed''),
                                      (''message'', PStr (str_exn e))]),
                              snd (update_document_status env doc_id ''FAILED''
                                     [(''errorMessage'', PStr (str_exn e))] w2)))))"

definition extract_lambda_handler :: "env \<Rightarrow> event \<Rightarrow> world \<Rightarrow> http_response \<times> world" where
  "extract_lambda_handler env ev w =
     (if Records ev \<noteq> None then handle_s3_event env ev w
      else case handle_api_request env ev w of
             (Inr r, w') \<Rightarrow> (r, w')
           | (Inl e, w') \<Rightarrow>
               (response 500 [(''error'', PStr ''Internal server error''),
                              (''message'', PStr (str_exn e))],
                w'\<lparr>logs := logs w' @ [LogError (str_exn e)]\<rparr>))"

section \<open>handlers/query.py\<close>

text \<open>The body of the \<open>try\<close> of \<open>lambda_handler\<close>; an escaping exception is \<open>Inl\<close>.\<close>

definition query_request :: "env \<Rightarrow> event \<Rightarrow> world \<Rightarrow> (exn + http_response) \<times> world" where
  "query_request env ev w =
     (let path_params = or_empty (pathParameters ev);
          document_id = map_of path_params ''documentId''
      in if \<not> str_truthy document_id then
           (Inr (response 400 [(''error'', PStr ''documentId is required'')]), w)
         else
           (let doc_id = the document_id
            in case loads_body (body ev) of
                 Inl e \<Rightarrow>
                   if exn_class e = JSONDecodeError then
                     (Inr (response 400 [(''error'', PStr ''Invalid JSON body'')]), w)
                   else (Inl e, w)
               | Inr b \<Rightarrow>
                   (case py_get b ''question'' (PStr []) of
                      Inl e \<Rightarrow> (Inl e, w)
                    | Inr q \<Rightarrow>
                        (case py_strip q of
                           Inl e \<Rightarrow> (Inl e, w)
                         | Inr question \<Rightarrow>
                             if question = [] then
                               (Inr (response 400
                                      [(''error'', PStr ''question is required in request body'')]), w)
                             else if length question > 1000 then
                               (Inr (response 400
                                      [(''error'', PStr ''Question too long (max 1000 characters)'')]), w)
                             else
                               (case get_document w doc_id of
                                  None \<Rightarrow>
                                    (Inr (response 404 [(''error'', PStr ''Document not found'')]), w)
                                | Some document \<Rightarrow>
                                    if document = [] then
                                      (Inr (response 404 [(''error'', PStr ''Document not found'')]), w)
                                    else
                                      (let extracted_text = dict_get document ''extractedText''
                                       in if \<not> truthy extracted_text then
                                            (Inr (response 400
                                                   [(''error'', PStr ''Document text has not been extracted yet''),
                                                    (''hint'', PStr ''Call the extract endpoint first'')]), w)
                                          else
                                            (let w1 = w\<lparr>calls := calls w @ [AnswerCall extracted_text question]\<rparr>
                                             in case answer_question env extracted_text question of
                                                  Inl e \<Rightarrow> (Inl e, w1)
                                                | Inr (answer, conf) \<Rightarrow>
                                                    (Inr (response 200
                                                           [(''documentId'', PStr doc_id),
                                                            (''question'', PStr question),
                                                            (''answer'', PStr answer),
                                                            (''confidence'', PStr conf)]),
                                                     add_query_to_history env doc_id question answer w1))))))))"

definition query_lambda_handler :: "env \<Rightarrow> event \<Rightarrow> world \<Rightarrow> http_response \<times> world" where
  "query_lambda_handler env ev w =
     (case query_request env ev w of
        (Inr r, w') \<Rightarrow> (r, w')
      | (Inl e, w') \<Rightarrow>
          (response 500 [(''error'', PStr ''Query failed''), (''message'', PStr (str_exn e))],
           w'\<lparr>logs := logs w' @ [LogError (str_exn e)]\<rparr>))"

section \<open>handlers/summarize.py\<close>

text \<open>\<open>int(query_params.get('maxLength', 500))\<close>.\<close>

definition max_length_param :: "env \<Rightarrow> (string \<times> string) list \<Rightarrow> exn + int" where
  "max_length_param env query_params =
     (case map_of query_params ''maxLength'' of
        None \<Rightarrow> Inr 500
      | Some s \<Rightarrow> int_str env s)"

text \<open>The optional entity and question steps that follow the storing of a new summary.\<close>

definition summarize_extras ::
  "env \<Rightarrow> pyval \<Rightarrow> bool \<Rightarrow> bool \<Rightarrow> pydict \<Rightarrow> world \<Rightarrow> (exn + pydict) \<times> world" where
  "summarize_extras env extracted_text include_entities include_questions result w =
     (case (if include_entities then
              (case extract_key_entities env extracted_text of
                 Inl e \<Rightarrow> (Inl e, w\<lparr>calls := calls w @ [EntitiesCall extracted_text]\<rparr>)
               | Inr entities \<Rightarrow>
                   (Inr (result @ [(''entities'', entities)]),
                    w\<lparr>calls := calls w @ [EntitiesCall extracted_text]\<rparr>))
            else (Inr result, w)) of
        (Inl e, w1) \<Rightarrow> (Inl e, w1)
      | (Inr result1, w1) \<Rightarrow>
          if include_questions then
            (case generate_document_questions env extracted_text 5 of
               Inl e \<Rightarrow> (Inl e, w1\<lparr>calls := calls w1 @ [QuestionsCall extracted_text 5]\<rparr>)
             | Inr questions \<Rightarrow>
                 (Inr (result1 @ [(''suggestedQuestions'', PList (map PStr questions))]),
                  w1\<lparr>calls := calls w1 @ [QuestionsCall extracted_text 5]\<rparr>))
          else (Inr result1, w1))"

definition summarize_request ::
  "env \<Rightarrow> event \<Rightarrow> world \<Rightarrow> (exn + http_response) \<times> world" where
  "summarize_request env ev w =
     (let path_params = or_empty (pathParameters ev);
          document_id = map_of path_params ''documentId''
      in if \<not> str_truthy document_id then
           (Inr (response 400 [(''error'', PStr ''documentId is required'')]), w)
         else
           (let doc_id = the document_id;
                query_params = or_empty (queryStringParameters ev);
                include_entities = (lower (get_default query_params ''entities'' ''false'') = ''true'');
                include_questions = (lower (get_default query_params ''questions'' ''false'') = ''true'')
            in case max_length_param env query_params of
                 Inl e \<Rightarrow> (Inl e, w)
               | Inr max_length \<Rightarrow>
                   (case get_document w doc_id of
                      None \<Rightarrow> (Inr (response 404 [(''error'', PStr ''Document not found'')]), w)
                    | Some document \<Rightarrow>
                        if document = [] then
                          (Inr (response 404 [(''error'', PStr ''Document not found'')]), w)
                        else
                          (let extracted_text = dict_get document ''extractedText''
                           in if \<not> truthy extracted_text then
                                (Inr (response 400
                                       [(''error'', PStr ''Document text has not been extracted yet''),
                                        (''hint'', PStr ''Call the extract endpoint first'')]), w)
                              else if truthy (dict_get document ''summary'')
                                      \<and> \<not> include_entities \<and> \<not> include_questions then
                                (Inr (response 200
                                       [(''documentId'', PStr doc_id),
                                        (''summary'', dict_get document ''summary''),
                                        (''cached'', PBool True)]), w)
                              else
                                (let w1 = w\<lparr>calls := calls w @ [SummarizeCall extracted_text max_length]\<rparr>
                                 in case summarize_document env extracted_text max_length of
                                      Inl e \<Rightarrow> (Inl e, w1)
                                    | Inr summary \<Rightarrow>
                                        (let w2 = snd (store_summary env doc_id summary w1);
                                             result = [(''documentId'', PStr doc_id),
                                                       (''summary'', PStr summary),
                                                       (''wordCount'',
                                                          dict_get_default document ''wordCount'' (PInt 0)),
                                                       (''cached'', PBool False)]
                                         in case summarize_extras env extracted_text
                                                   include_entities include_questions result w2 of
                                              (Inl e, w3) \<Rightarrow> (Inl e, w3)
                                            | (Inr result', w3) \<Rightarrow>
                                                (Inr (response 200 result'), w3)))))))"

definition summarize_lambda_handler :: "env \<Rightarrow> event \<Rightarrow> world \<Rightarrow> http_response \<times> world" where
  "summarize_lambda_handler env ev w =
     (case summarize_request env ev w of
        (Inr r, w') \<Rightarrow> (r, w')
      | (Inl e, w') \<Rightarrow>
          (response 500 [(''error'', PStr ''Summarization failed''),
                         (''message'', PStr (str_exn e))],
           w'\<lparr>logs := logs w' @ [LogError (str_exn e)]\<rparr>))"

section \<open>handlers/upload.py\<close>

text \<open>\<open>sep.join(xs)\<close>, and the \<open>repr\<close> of a list of strings that hold no quote.\<close>

fun join :: "string \<Rightarrow> string list \<Rightarrow> string" where
  "join sep [] = []"
| "join sep [x] = x"
| "join sep (x # y # ys) = x @ sep @ join sep (y # ys)"

definition repr_strs :: "string list \<Rightarrow> string" where
  "repr_strs xs = ''['' @ join '', '' (map (\<lambda>s. squote @ s @ squote) xs) @ '']''"

definition ALLOWED_TYPES :: "string list" where
  "ALLOWED_TYPES =
     [''application/pdf'', ''image/png'', ''image/jpeg'', ''image/jpg'', ''text/plain'']"

definition handle_get_presigned_url :: "env \<Rightarrow> event \<Rightarrow> world \<Rightarrow> http_response \<times> world" where
  "handle_get_presigned_url env ev w =
     (let params = or_empty (queryStringParameters ev);
          filename = map_of params ''filename'';
          content_type = get_default params ''contentType'' ''application/pdf'';
          user_id = get_user_id ev
      in if \<not> str_truthy filename then
           (response 400 [(''error'', PStr ''filename is required'')], w)
         else if content_type \<notin> set ALLOWED_TYPES then
           (response 400 [(''error'', PStr (''Invalid content type. Allowed types: ''
                                        @ repr_strs ALLOWED_TYPES))], w)
         else
           (let document_id = uuid4 env (uuids w);
                timestamp = strftime_ymd (utcnow env (ticks w));
                s3_key = ''documents/'' @ user_id @ ''/'' @ timestamp @ ''/'' @ document_id
                           @ ''/'' @ the filename;
                presigned_url = generate_presigned_url env ''put_object''
                                  [(''Bucket'', PStr BUCKET_NAME),
                                   (''Key'', PStr s3_key),
                                   (''ContentType'', PStr content_type)]
            in (response 200 [(''uploadUrl'', PStr presigned_url),
                              (''documentId'', PStr document_id),
                              (''s3Key'', PStr s3_key),
                              (''expiresIn'', PInt 3600)],
                w\<lparr>uuids := Suc (uuids w), ticks := Suc (ticks w)\<rparr>)))"

text \<open>
  \<open>s3.head_object\<close>: a \<open>ClientError\<close> when the key is not in the bucket; a key that is
  not a string is refused before the request is sent.
\<close>

definition head_object :: "world \<Rightarrow> pyval \<Rightarrow> exn option" where
  "head_object w s3_key =
     (case s3_key of
        PStr k \<Rightarrow> if k \<in> blobs w then None else Some (Exn ClientError ''Not Found'')
      | _ \<Rightarrow> Some (Exn ParamValidationError ''Parameter validation failed''))"

definition handle_upload_request ::
  "env \<Rightarrow> event \<Rightarrow> world \<Rightarrow> (exn + http_response) \<times> world" where
  "handle_upload_request env ev w =
     (case loads_body (body ev) of
        Inl e \<Rightarrow>
          if exn_class e = JSONDecodeError then
            (Inr (response 400 [(''error'', PStr ''Invalid JSON body'')]), w)
          else (Inl e, w)
      | Inr b \<Rightarrow>
          (case b of
             PDict d \<Rightarrow>
               (let document_id = dict_get d ''documentId'';
                    s3_key = dict_get d ''s3Key'';
                    filename = dict_get d ''filename'';
                    content_type = dict_get_default d ''contentType'' (PStr ''application/pdf'');
                    file_size = dict_get_default d ''fileSize'' (PInt 0);
                    user_id = get_user_id ev
                in if \<not> (truthy document_id \<and> truthy s3_key \<and> truthy filename) then
                     (Inr (response 400
                            [(''error'', PStr ''documentId, s3Key, and filename are required'')]), w)
                   else
                     (case head_object w s3_key of
                        Some e \<Rightarrow>
                          if exn_class e = ClientError then
                            (Inr (response 404 [(''error'', PStr ''Document not found in S3'')]), w)
                          else (Inl e, w)
                      | None \<Rightarrow>
                          (case create_document env user_id filename s3_key content_type file_size w of
                             (Inl e, w') \<Rightarrow> (Inl e, w')
                           | (Inr document, w') \<Rightarrow>
                               (Inr (response 201
                                      [(''message'', PStr ''Document uploaded successfully''),
                                       (''document'', PDict document)]), w'))))
           | _ \<Rightarrow> (Inl (attribute_error b ''get''), w)))"

definition upload_lambda_handler :: "env \<Rightarrow> event \<Rightarrow> world \<Rightarrow> http_response \<times> world" where
  "upload_lambda_handler env ev w =
     (let http_method = (case httpMethod ev of None \<Rightarrow> ''POST'' | Some m \<Rightarrow> m)
      in if http_method = ''POST'' then
           (case handle_upload_request env ev w of
              (Inr r, w') \<Rightarrow> (r, w')
            | (Inl e, w') \<Rightarrow>
                (response 500 [(''error'', PStr ''Internal server error''),
                               (''message'', PStr (str_exn e))],
                 w'\<lparr>logs := logs w' @ [LogError (str_exn e)]\<rparr>))
         else if http_method = ''GET'' then handle_get_presigned_url env ev w
         else (response 405 [(''error'', PStr ''Method not allowed'')], w))"

section \<open>handlers/documents.py\<close>

text \<open>
  \<open>s3.delete_object\<close> inside its \<open>try\<close>: a failure is printed and dropped. Deleting a
  key that is not in the bucket is no failure for the store.
\<close>

definition delete_blob :: "env \<Rightarrow> pydict \<Rightarrow> world \<Rightarrow> world" where
  "delete_blob env document w =
     (let s3_key = dict_get document ''s3Key''
      in if truthy s3_key then
           (case s3_key of
              PStr k \<Rightarrow>
                (case s3_delete_error env k of
                   Some e \<Rightarrow> w\<lparr>logs := logs w @ [LogS3Warning (str_exn e)]\<rparr>
                 | None \<Rightarrow> w\<lparr>blobs := blobs w - {k}\<rparr>)
            | _ \<Rightarrow> w\<lparr>logs := logs w @ [LogS3Warning ''Parameter validation failed'']\<rparr>)
         else w)"

definition delete_document_handler ::
  "env \<Rightarrow> event \<Rightarrow> string option \<Rightarrow> world \<Rightarrow> http_response \<times> world" where
  "delete_document_handler env ev document_id w =
     (if \<not> str_truthy document_id then
        (documents_response 400 [(''error'', PStr ''documentId is required'')], w)
      else
        (let doc_id = the document_id
         in case get_document w doc_id of
              None \<Rightarrow> (documents_response 404 [(''error'', PStr ''Document not found'')], w)
            | Some document \<Rightarrow>
                if document = [] then
                  (documents_response 404 [(''error'', PStr ''Document not found'')], w)
                else
                  (let user_id = get_user_id ev
                   in if dict_get document ''userId'' \<noteq> PStr user_id \<and> user_id \<noteq> ''anonymous'' then
                        (documents_response 403 [(''error'', PStr ''Access denied'')], w)
                      else
                        (let w1 = delete_blob env document w;
                             w2 = snd (delete_document env doc_id w1)
                         in (documents_response 200
                               [(''message'', PStr ''Document deleted successfully''),
                                (''documentId'', PStr doc_id)], w2)))))"

section \<open>Reachable states\<close>

text \<open>
  The states of the table and the bucket that the handlers can produce, starting from
  the empty deployment. Between invocations a client may put an object into the bucket
  through a presigned URL.
\<close>

definition empty_world :: world where
  "empty_world = \<lparr>table = Map.empty, blobs = {}, uuids = 0, ticks = 0, calls = [], logs = []\<rparr>"

inductive reachable :: "world \<Rightarrow> bool" where
  by_start: "reachable empty_world"
| by_put_object: "reachable w \<Longrightarrow> reachable (w\<lparr>blobs := insert k (blobs w)\<rparr>)"
| by_upload: "reachable w \<Longrightarrow> reachable (snd (upload_lambda_handler env ev w))"
| by_extract: "reachable w \<Longrightarrow> reachable (snd (extract_lambda_handler env ev w))"
| by_query: "reachable w \<Longrightarrow> reachable (snd (query_lambda_handler env ev w))"
| by_summarize: "reachable w \<Longrightarrow> reachable (snd (summarize_lambda_handler env ev w))"
| by_delete: "reachable w \<Longrightarrow> reachable (snd (delete_document_handler env ev i w))"

text \<open>The statuses a record carrying \<open>extractedText\<close> can have.\<close>

definition text_status_ok :: "pydict \<Rightarrow> bool" where
  "text_status_ok d =
     (map_of d ''extractedText'' = None
      \<or> map_of d ''status'' = Some (PStr ''PROCESSING'')
      \<or> map_of d ''status'' = Some (PStr ''EXTRACTED'')
      \<or> map_of d ''status'' = Some (PStr ''COMPLETED'')
      \<or> map_of d ''status'' = Some (PStr ''FAILED''))"

definition table_ok :: "(string \<rightharpoonup> pydict) \<Rightarrow> bool" where
  "table_ok t = (\<forall>i d. t i = Some d \<longrightarrow> text_status_ok d)"

section \<open>A sample environment\<close>

text \<open>
  One concrete environment, for running the handlers on concrete requests: the clock
  stands at 2024-01-15, the n-th identifier is \<open>id-\<close> followed by n times \<open>x\<close>, the OCR
  adapter reads \<open>Hello world\<close> with confidence 98.5, and no store operation fails.
  \<open>int\<close> reads plain decimal digits; \<open>unquote_plus\<close> is the identity, which it is on keys
  without \<open>+\<close> and \<open>%\<close>.
\<close>

definition is_digit :: "char \<Rightarrow> bool" where
  "is_digit c = (48 \<le> (of_char c :: nat) \<and> (of_char c :: nat) \<le> 57)"

definition decimal_int :: "string \<Rightarrow> exn + int" where
  "decimal_int s =
     (if s \<noteq> [] \<and> list_all is_digit s
      then Inr (int (foldl (\<lambda>a c. 10 * a + (of_char c - 48)) 0 s))
      else Inl (Exn ValueError
                 (''invalid literal for int() with base 10: '' @ squote @ s @ squote)))"

definition sample_now :: datetime where
  "sample_now = \<lparr>year = 2024, month = 1, day = 15, hour = 10, minute = 30, second = 0,
                  microsecond = 0\<rparr>"

definition sample_ocr :: ocr_result where
  "sample_ocr = \<lparr>ocr_text = ''Hello world'', ocr_line_count = 1, ocr_word_count = 2,
                  ocr_confidence = Finite (197 / 2)\<rparr>"

definition sample_env :: env where
  "sample_env =
     \<lparr>uuid4 = (\<lambda>n. ''id-'' @ replicate n CHR ''x''),
      utcnow = (\<lambda>n. sample_now),
      str_float = (\<lambda>f. if f = Finite (197 / 2) then ''98.5'' else ''0.0''),
      float_str = (\<lambda>s. if s = ''98.5'' then Inr (Finite (197 / 2))
                         else Inl (Exn ValueError ''could not convert string to float'')),
      int_str = decimal_int,
      unquote_plus = (\<lambda>s. s),
      generate_presigned_url = (\<lambda>operation params. ''https://documind-documents.s3/signed''),
      extract_text_from_s3 = (\<lambda>bucket key. Inr sample_ocr),
      summarize_document = (\<lambda>t n. Inr ''A greeting.''),
      answer_question = (\<lambda>t q. Inr (''It says hello.'', ''high'')),
      extract_key_entities = (\<lambda>t. Inr (PDict [])),
      generate_document_questions = (\<lambda>t n. Inr []),
      s3_delete_error = (\<lambda>k. None),
      ddb_delete_error = (\<lambda>i. None),
      ddb_append_error = (\<lambda>i. None),
      ddb_put_error = (\<lambda>item. None)\<rparr>"

text \<open>A request carrying nothing.\<close>

definition empty_event :: event where
  "empty_event =
     \<lparr>Records = None, httpMethod = None, pathParameters = None,
      queryStringParameters = None, headers = None, claims = None, body = NoBody\<rparr>"

text \<open>
  A record as \<open>create_document\<close> and \<open>store_extracted_text\<close> leave it: owned by \<open>alice\<close>,
  extracted, with one earlier question in its history.
\<close>

definition alice_doc :: pydict where
  "alice_doc =
     [(''documentId'', PStr ''d1''),
      (''userId'', PStr ''alice''),
      (''filename'', PStr ''report.pdf''),
      (''s3Key'', PStr ''documents/alice/2024/01/15/d0/report.pdf''),
      (''contentType'', PStr ''application/pdf''),
      (''fileSize'', PInt 2048),
      (''status'', PStr ''EXTRACTED''),
      (''createdAt'', PStr ''2024-01-15T10:30:00''),
      (''updatedAt'', PStr ''2024-01-15T10:30:00''),
      (''extractedText'', PStr ''Hello world''),
      (''wordCount'', PInt 2),
      (''ocrConfidence'', PStr ''98.5''),
      (''textLength'', PInt 11),
      (''queryHistory'',
         PList [PDict [(''question'', PStr ''Who?''), (''answer'', PStr ''Nobody.''),
                       (''timestamp'', PStr ''2024-01-15T10:30:00'')]])]"

definition alice_world :: world where
  "alice_world =
     \<lparr>table = [''d1'' \<mapsto> alice_doc],
      blobs = {''documents/alice/2024/01/15/d0/report.pdf''},
      uuids = 2, ticks = 3, calls = [], logs = []\<rparr>"

section \<open>A sample run\<close>

text \<open>
  The scenario of the specification, run on the handlers: user \<open>u1\<close> asks for an upload
  slot for \<open>report.pdf\<close>, puts the object, finalizes the upload, has the text extracted
  and summarized. Two continuations follow: an extraction request on which the OCR
  adapter fails, and one on which it reads a blank page.
\<close>

definition u1_headers :: "(string \<times> string) list option" where
  "u1_headers = Some [(''X-User-Id'', ''u1'')]"

definition slot_request :: event where
  "slot_request =
     empty_event\<lparr>httpMethod := Some ''GET'',
                  queryStringParameters := Some [(''filename'', ''report.pdf''),
                                                 (''contentType'', ''application/pdf'')],
                  headers := u1_headers\<rparr>"

definition report_key :: string where
  "report_key = ''documents/u1/2024/01/15/id-/report.pdf''"

definition finalize_request :: event where
  "finalize_request =
     empty_event\<lparr>httpMethod := Some ''POST'',
                  headers := u1_headers,
                  body := Body (PDict [(''documentId'', PStr ''id-''),
                                       (''s3Key'', PStr report_key),
                                       (''filename'', PStr ''report.pdf''),
                                       (''contentType'', PStr ''application/pdf''),
                                       (''fileSize'', PInt 2048)])\<rparr>"

definition document_request :: event where
  "document_request =
     empty_event\<lparr>pathParameters := Some [(''documentId'', ''id-x'')], headers := u1_headers\<rparr>"

definition failing_ocr_env :: env where
  "failing_ocr_env =
     sample_env\<lparr>extract_text_from_s3 :=
                   (\<lambda>bucket key. Inl (Exn ServiceError ''Unsupported document format''))\<rparr>"

definition blank_ocr_env :: env where
  "blank_ocr_env =
     sample_env\<lparr>extract_text_from_s3 :=
                   (\<lambda>bucket key. Inr \<lparr>ocr_text = [], ocr_line_count = 0, ocr_word_count = 0,
                                        ocr_confidence = Finite 0\<rparr>)\<rparr>"

definition slot_world :: world where
  "slot_world = snd (upload_lambda_handler sample_env slot_request empty_world)"

definition stored_world :: world where
  "stored_world = slot_world\<lparr>blobs := insert report_key (blobs slot_world)\<rparr>"

definition uploaded_world :: world where
  "uploaded_world = snd (upload_lambda_handler sample_env finalize_request stored_world)"

definition extracted_world :: world where
  "extracted_world = snd (extract_lambda_handler sample_env document_request uploaded_world)"

definition completed_world :: world where
  "completed_world = snd (summarize_lambda_handler sample_env document_request extracted_world)"

definition failed_world :: world where
  "failed_world = snd (extract_lambda_handler failing_ocr_env document_request completed_world)"

definition blank_world :: world where
  "blank_world = snd (extract_lambda_handler blank_ocr_env document_request completed_world)"

text \<open>The record of the sample run with a given status and further attributes.\<close>

definition doc_with :: "string \<Rightarrow> pydict \<Rightarrow> pydict" where
  "doc_with st extra =
     [(''documentId'', PStr ''id-x''), (''userId'', PStr ''u1''),
      (''filename'', PStr ''report.pdf''),
      (''s3Key'', PStr report_key),
      (''contentType'', PStr ''application/pdf''), (''fileSize'', PInt 2048),
      (''status'', PStr st),
      (''createdAt'', PStr ''2024-01-15T10:30:00''),
      (''updatedAt'', PStr ''2024-01-15T10:30:00'')] @ extra"

definition text_attrs :: pydict where
  "text_attrs =
     [(''extractedText'', PStr ''Hello world''), (''wordCount'', PInt 2),
      (''ocrConfidence'', PStr ''98.5''), (''textLength'', PInt 11)]"

definition stranger_question :: event where
  "stranger_question =
     empty_event\<lparr>pathParameters := Some [(''documentId'', ''d1'')],
                  headers := Some [(''X-User-Id'', ''mallory'')],
                  body := Body (PDict [(''question'', PStr '' What does it say? '')])\<rparr>"

definition blank_question :: event where
  "blank_question =
     empty_event\<lparr>pathParameters := Some [(''documentId'', ''d1'')],
                  headers := Some [(''X-User-Id'', ''alice'')],
                  body := Body (PDict [(''question'', PStr ''   '')])\<rparr>"

definition alice_request :: event where
  "alice_request = empty_event\<lparr>headers := Some [(''X-User-Id'', ''alice'')]\<rparr>"

definition failing_s3_env :: env where
  "failing_s3_env =
     sample_env\<lparr>s3_delete_error := (\<lambda>k. Some (Exn ClientError ''Access Denied''))\<rparr>"

text \<open>One field of a JSON response body.\<close>

definition body_field :: "http_response \<Rightarrow> string \<Rightarrow> pyval" where
  "body_field r k = (case rbody r of JsonBody b \<Rightarrow> dict_get b k | TextBody t \<Rightarrow> PNone)"

definition bad_length_request :: event where
  "bad_length_request =
     document_request\<lparr>queryStringParameters := Some [(''maxLength'', ''abc'')]\<rparr>"

definition summary_attrs :: pydict where
  "summary_attrs = [(''summary'', PStr ''A greeting.'')]"

definition blank_attrs :: pydict where
  "blank_attrs =
     [(''extractedText'', PStr []), (''wordCount'', PInt 0),
      (''ocrConfidence'', PStr ''0.0''), (''textLength'', PInt 0)]"

text \<open>The storage notification for one object put into the documents bucket.\<close>

definition s3_put_event :: "string \<Rightarrow> event" where
  "s3_put_event key =
     empty_event\<lparr>Records := Some [\<lparr>bucket_name = BUCKET_NAME, object_key = key\<rparr>]\<rparr>"

text \<open>The store refuses the \<open>list_append\<close> update, as it does for an item grown past its size limit.\<close>

definition failing_append_env :: env where
  "failing_append_env =
     sample_env\<lparr>ddb_append_error :=
                   (\<lambda>i. Some (Exn ClientError ''Item size has exceeded the maximum allowed size''))\<rparr>"

section \<open>Stored extraction results\<close>

lemma map_of_set_attrs_Cons:
  "map_of (set_attrs ((k, v) # sets) d) = map_of (set_attrs sets (AList.update k v d))"
  by (simp add: set_attrs_def)

lemma map_of_set_attrs_Nil: "set_attrs [] d = d"
  by (simp add: set_attrs_def)

text \<open>
  C6. After \<open>store_extracted_text\<close> the record has status \<open>EXTRACTED\<close>, \<open>extractedText\<close>
  is the first 50000 characters of the text, \<open>wordCount\<close> the word count, \<open>ocrConfidence\<close>
  the string form of the confidence and \<open>textLength\<close> the length of the whole text.
\<close>

theorem store_extracted_text_persists:
  "table (snd (store_extracted_text env i txt wc conf w)) i
     = Some (fst (store_extracted_text env i txt wc conf w))
   \<and> map_of (fst (store_extracted_text env i txt wc conf w)) ''status''
       = Some (PStr ''EXTRACTED'')
   \<and> map_of (fst (store_extracted_text env i txt wc conf w)) ''extractedText''
       = Some (PStr (take 50000 txt))
   \<and> map_of (fst (store_extracted_text env i txt wc conf w)) ''wordCount''
       = Some (PInt wc)
   \<and> map_of (fst (store_extracted_text env i txt wc conf w)) ''ocrConfidence''
       = Some (PStr (str_float env conf))
   \<and> map_of (fst (store_extracted_text env i txt wc conf w)) ''textLength''
       = Some (PInt (int (length txt)))"
  by (simp add: store_extracted_text_def update_document_status_def Let_def
        map_of_set_attrs_Cons map_of_set_attrs_Nil update_conv')


section \<open>Evaluating the sample run\<close>

lemma sample_now_fmt:
  "strftime_ymd sample_now = ''2024/01/15''"
  "isoformat sample_now = ''2024-01-15T10:30:00''"
  by code_simp+

lemma sample_env_sel:
  "uuid4 sample_env n = ''id-'' @ replicate n CHR ''x''"
  "utcnow sample_env n = sample_now"
  "extract_text_from_s3 sample_env b k = Inr sample_ocr"
  "summarize_document sample_env t m = Inr ''A greeting.''"
  "answer_question sample_env t q = Inr (''It says hello.'', ''high'')"
  "int_str sample_env = decimal_int"
  "float_str sample_env ''98.5'' = Inr (Finite (197 / 2))"
  "str_float sample_env f = (if f = Finite (197 / 2) then ''98.5'' else ''0.0'')"
  "ddb_append_error sample_env i = None"
  "ddb_delete_error sample_env i = None"
  "s3_delete_error sample_env k = None"
  "ddb_put_error sample_env item = None"
  by (simp_all add: sample_env_def)

lemma report_key_ne: "report_key \<noteq> []"
  by (simp add: report_key_def)

lemma slot_world_eq:
  "slot_world = \<lparr>table = Map.empty, blobs = {}, uuids = 1, ticks = 1, calls = [], logs = []\<rparr>"
  by (simp add: slot_world_def upload_lambda_handler_def slot_request_def empty_event_def
        handle_get_presigned_url_def Let_def or_empty_def str_truthy_def get_default_def
        ALLOWED_TYPES_def empty_world_def)

lemma slot_response:
  "fst (upload_lambda_handler sample_env slot_request empty_world)
     = response 200 [(''uploadUrl'', PStr ''https://documind-documents.s3/signed''),
                     (''documentId'', PStr ''id-''),
                     (''s3Key'', PStr report_key),
                     (''expiresIn'', PInt 3600)]"
  by (simp add: upload_lambda_handler_def slot_request_def empty_event_def
        handle_get_presigned_url_def Let_def or_empty_def str_truthy_def get_default_def
        ALLOWED_TYPES_def empty_world_def sample_env_def sample_now_fmt report_key_def
        get_user_id_def u1_headers_def)

lemma uploaded_world_eq:
  "uploaded_world = \<lparr>table = [''id-x'' \<mapsto> doc_with ''UPLOADED'' []], blobs = {report_key},
      uuids = 2, ticks = 2, calls = [], logs = []\<rparr>"
  by (simp add: uploaded_world_def stored_world_def slot_world_eq upload_lambda_handler_def
        finalize_request_def empty_event_def handle_upload_request_def loads_body_def Let_def
        dict_get_def dict_get_default_def head_object_def create_document_def get_user_id_def
        document_item_def put_item_error_def
        u1_headers_def or_empty_def get_default_def sample_env_sel sample_now_fmt doc_with_def
        report_key_ne)

lemma document_request_id:
  "map_of (or_empty (pathParameters document_request)) ''documentId'' = Some ''id-x''"
  "Records document_request = None"
  by (simp_all add: document_request_def empty_event_def or_empty_def)

lemma extracted_world_eq:
  "extracted_world = \<lparr>table = [''id-x'' \<mapsto> doc_with ''EXTRACTED'' text_attrs],
      blobs = {report_key}, uuids = 2, ticks = 4,
      calls = [OcrCall BUCKET_NAME report_key], logs = []\<rparr>"
  by (simp add: extracted_world_def uploaded_world_eq extract_lambda_handler_def
        document_request_id handle_api_request_def Let_def str_truthy_def get_document_def
        dict_get_def extract_document_def update_document_status_def
        store_extracted_text_def set_attrs_def item_or_new_def sample_env_sel sample_now_fmt
        sample_ocr_def doc_with_def text_attrs_def)

section \<open>Question validation\<close>

text \<open>
  C9. A question that is empty after trimming, or longer than 1000 characters after
  trimming, is answered with status 400; nothing in the world changes: no adapter is
  invoked and no record is modified.
\<close>

theorem query_rejects_blank_or_long_question:
  assumes "loads_body (body ev) = Inr (PDict d)"
      and "dict_get_default d ''question'' (PStr []) = PStr q"
      and "strip q = [] \<or> length (strip q) > 1000"
  shows "statusCode (fst (query_lambda_handler env ev w)) = 400
         \<and> snd (query_lambda_handler env ev w) = w"
  using assms
  by (auto simp: query_lambda_handler_def query_request_def Let_def response_def)

theorem query_rejects_blank_or_long_question_witness:
  "statusCode (fst (query_lambda_handler sample_env blank_question alice_world)) = 400
   \<and> snd (query_lambda_handler sample_env blank_question alice_world) = alice_world"
  by (rule query_rejects_blank_or_long_question
            [where d = "[(''question'', PStr ''   '')]" and q = "''   ''"])
     (simp_all add: blank_question_def empty_event_def dict_get_default_def strip_def
        py_isspace_def loads_body_def)

section \<open>Caller identity in the query handler\<close>

lemma strip_stranger_question: "strip '' What does it say? '' = ''What does it say?''"
  by (simp add: strip_def py_isspace_def)

text \<open>
  C3, as the code has it. The query handler never reads the caller's identity: its
  response and its effects are the same whatever the headers and the authorizer claims
  are, and it never answers 403. For any caller, a question that is non-empty and at
  most 1000 characters after trimming, on an existing document with non-empty
  extracted text, is answered with status 200 when the LLM adapter returns: the adapter
  is invoked with the stored text and the trimmed question, and \<open>add_query_to_history\<close>
  is run with the question and the answer.
\<close>

theorem query_ignores_caller:
  "query_lambda_handler env (ev\<lparr>headers := h, claims := c\<rparr>) w = query_lambda_handler env ev w
   \<and> statusCode (fst (query_lambda_handler env ev w)) \<noteq> 403
   \<and> (map_of (or_empty (pathParameters ev)) ''documentId'' = Some i \<and> i \<noteq> []
       \<and> loads_body (body ev) = Inr (PDict b)
       \<and> dict_get_default b ''question'' (PStr []) = PStr q
       \<and> strip q \<noteq> [] \<and> length (strip q) \<le> 1000
       \<and> table w i = Some d \<and> d \<noteq> [] \<and> truthy (dict_get d ''extractedText'')
       \<and> answer_question env (dict_get d ''extractedText'') (strip q) = Inr (a, cf)
      \<longrightarrow> query_lambda_handler env ev w
            = (response 200 [(''documentId'', PStr i),
                             (''question'', PStr (strip q)),
                             (''answer'', PStr a),
                             (''confidence'', PStr cf)],
               add_query_to_history env i (strip q) a
                 (w\<lparr>calls := calls w @ [AnswerCall (dict_get d ''extractedText'') (strip q)]\<rparr>)))"
proof (intro conjI impI)
  show "query_lambda_handler env (ev\<lparr>headers := h, claims := c\<rparr>) w
          = query_lambda_handler env ev w"
    by (auto simp: query_lambda_handler_def query_request_def Let_def response_def
          split: sum.splits prod.splits option.splits if_splits)
  show "statusCode (fst (query_lambda_handler env ev w)) \<noteq> 403"
    by (auto simp: query_lambda_handler_def query_request_def Let_def response_def
          split: sum.splits prod.splits option.splits if_splits)
next
  assume "map_of (or_empty (pathParameters ev)) ''documentId'' = Some i \<and> i \<noteq> []
       \<and> loads_body (body ev) = Inr (PDict b)
       \<and> dict_get_default b ''question'' (PStr []) = PStr q
       \<and> strip q \<noteq> [] \<and> length (strip q) \<le> 1000
       \<and> table w i = Some d \<and> d \<noteq> [] \<and> truthy (dict_get d ''extractedText'')
       \<and> answer_question env (dict_get d ''extractedText'') (strip q) = Inr (a, cf)"
  then show "query_lambda_handler env ev w
            = (response 200 [(''documentId'', PStr i),
                             (''question'', PStr (strip q)),
                             (''answer'', PStr a),
                             (''confidence'', PStr cf)],
               add_query_to_history env i (strip q) a
                 (w\<lparr>calls := calls w @ [AnswerCall (dict_get d ''extractedText'') (strip q)]\<rparr>))"
    by (simp add: query_lambda_handler_def query_request_def Let_def str_truthy_def
          get_document_def)
qed

theorem query_ignores_caller_witness:
  "get_user_id stranger_question = ''mallory''
   \<and> query_lambda_handler sample_env stranger_question alice_world
     = (response 200 [(''documentId'', PStr ''d1''),
                      (''question'', PStr ''What does it say?''),
                      (''answer'', PStr ''It says hello.''),
                      (''confidence'', PStr ''high'')],
        add_query_to_history sample_env ''d1'' ''What does it say?'' ''It says hello.''
          (alice_world\<lparr>calls := calls alice_world
                                   @ [AnswerCall (PStr ''Hello world'') ''What does it say?'']\<rparr>))"
proof -
  have g: "get_user_id stranger_question = ''mallory''"
    by (simp add: stranger_question_def empty_event_def get_user_id_def or_empty_def
          get_default_def)
  have x: "dict_get alice_doc ''extractedText'' = PStr ''Hello world''"
    by (simp add: alice_doc_def dict_get_def)
  have h: "map_of (or_empty (pathParameters stranger_question)) ''documentId'' = Some ''d1''
       \<and> ''d1'' \<noteq> []
       \<and> loads_body (body stranger_question)
           = Inr (PDict [(''question'', PStr '' What does it say? '')])
       \<and> dict_get_default [(''question'', PStr '' What does it say? '')] ''question'' (PStr [])
           = PStr '' What does it say? ''
       \<and> strip '' What does it say? '' \<noteq> [] \<and> length (strip '' What does it say? '') \<le> 1000
       \<and> table alice_world ''d1'' = Some alice_doc \<and> alice_doc \<noteq> []
       \<and> truthy (dict_get alice_doc ''extractedText'')
       \<and> answer_question sample_env (dict_get alice_doc ''extractedText'')
             (strip '' What does it say? '') = Inr (''It says hello.'', ''high'')"
    by (simp add: stranger_question_def empty_event_def or_empty_def loads_body_def
          dict_get_default_def strip_stranger_question alice_world_def x sample_env_sel)
      (simp add: alice_doc_def)
  note t = query_ignores_caller
             [THEN conjunct2, THEN conjunct2, THEN mp, OF h]
  show ?thesis
    using t g by (simp add: strip_stranger_question x)
qed

text \<open>
  C3 as stated fails: \<open>mallory\<close>, who is neither the owner \<open>alice\<close> nor \<open>anonymous\<close>, asks a
  question about \<open>alice\<close>'s document and gets status 200; the LLM adapter is invoked and
  the question is appended to the record's history.
\<close>

theorem query_by_stranger_counterexample:
  "get_user_id stranger_question = ''mallory''
   \<and> attr alice_world ''d1'' ''userId'' = PStr ''alice''
   \<and> statusCode (fst (query_lambda_handler sample_env stranger_question alice_world)) = 200
   \<and> calls (snd (query_lambda_handler sample_env stranger_question alice_world))
       = [AnswerCall (PStr ''Hello world'') ''What does it say?'']
   \<and> attr (snd (query_lambda_handler sample_env stranger_question alice_world)) ''d1''
         ''queryHistory''
       = PList [PDict [(''question'', PStr ''Who?''), (''answer'', PStr ''Nobody.''),
                       (''timestamp'', PStr ''2024-01-15T10:30:00'')],
                PDict [(''question'', PStr ''What does it say?''),
                       (''answer'', PStr ''It says hello.''),
                       (''timestamp'', PStr ''2024-01-15T10:30:00'')]]"
  by (simp add: stranger_question_def empty_event_def get_user_id_def or_empty_def
        get_default_def alice_doc_def alice_world_def dict_get_def dict_get_default_def
        query_lambda_handler_def query_request_def Let_def str_truthy_def loads_body_def
        strip_stranger_question get_document_def sample_env_sel response_def
        add_query_to_history_def list_append_history_def item_or_new_def attr_def
        sample_now_fmt)

section \<open>Deleting a document\<close>

text \<open>
  C10. An authorized delete request on an existing document is answered with status 200
  whether or not the blob could be deleted; \<open>delete_document\<close> runs after the blob step
  in every case and removes the record (unless the table's own \<open>delete_item\<close> raises,
  which \<open>delete_document\<close> turns into \<open>False\<close> and the handler does not look at).
\<close>

theorem delete_swallows_blob_failure:
  assumes "i \<noteq> []"
      and "table w i = Some d" and "d \<noteq> []"
      and "dict_get d ''userId'' = PStr (get_user_id ev) \<or> get_user_id ev = ''anonymous''"
  shows "fst (delete_document_handler env ev (Some i) w)
           = documents_response 200 [(''message'', PStr ''Document deleted successfully''),
                                     (''documentId'', PStr i)]
         \<and> snd (delete_document_handler env ev (Some i) w)
           = snd (delete_document env i (delete_blob env d w))
         \<and> table (snd (delete_document_handler env ev (Some i) w))
           = (if ddb_delete_error env i = None then (table w)(i := None) else table w)"
  using assms
  by (auto simp: delete_document_handler_def Let_def str_truthy_def get_document_def
        delete_document_def delete_blob_def split: option.splits pyval.splits)

theorem delete_swallows_blob_failure_witness:
  "s3_delete_error failing_s3_env ''documents/alice/2024/01/15/d0/report.pdf''
     = Some (Exn ClientError ''Access Denied'')
   \<and> fst (delete_document_handler failing_s3_env alice_request (Some ''d1'') alice_world)
     = documents_response 200 [(''message'', PStr ''Document deleted successfully''),
                               (''documentId'', PStr ''d1'')]
   \<and> table (snd (delete_document_handler failing_s3_env alice_request (Some ''d1'') alice_world))
        ''d1'' = None"
proof -
  have a: "table alice_world ''d1'' = Some alice_doc"
    by (simp add: alice_world_def)
  have b: "alice_doc \<noteq> []"
    by (simp add: alice_doc_def)
  have c: "dict_get alice_doc ''userId'' = PStr (get_user_id alice_request)"
    by (simp add: alice_doc_def alice_request_def empty_event_def dict_get_def get_user_id_def
          or_empty_def get_default_def)
  have e: "ddb_delete_error failing_s3_env ''d1'' = None"
          "s3_delete_error failing_s3_env ''documents/alice/2024/01/15/d0/report.pdf''
             = Some (Exn ClientError ''Access Denied'')"
    by (simp_all add: failing_s3_env_def sample_env_def)
  have n: "''d1'' \<noteq> []"
    by simp
  note t = delete_swallows_blob_failure [OF n a b disjI1 [OF c], of failing_s3_env]
  show ?thesis
    using t [THEN conjunct1] t [THEN conjunct2, THEN conjunct2] e by simp
qed

section \<open>The synchronous extraction request\<close>



lemma sample_doc_attrs:
  "doc_with st extra \<noteq> []"
  "dict_get (doc_with st extra) ''status'' = PStr st"
  "map_of (doc_with st extra) ''s3Key'' = Some (PStr report_key)"
  "dict_get (doc_with st text_attrs) ''extractedText'' = PStr ''Hello world''"
  "dict_get_default (doc_with st text_attrs) ''wordCount'' v = PInt 2"
  "dict_get_default (doc_with st text_attrs) ''ocrConfidence'' v = PStr ''98.5''"
  by (simp_all add: doc_with_def text_attrs_def dict_get_def dict_get_default_def)



section \<open>Later states of the sample run\<close>

lemma completed_world_eq:
  "completed_world = \<lparr>table = [''id-x'' \<mapsto> doc_with ''COMPLETED'' (text_attrs @ summary_attrs)],
      blobs = {report_key}, uuids = 2, ticks = 5,
      calls = [OcrCall BUCKET_NAME report_key, SummarizeCall (PStr ''Hello world'') 500],
      logs = []\<rparr>"
  by (simp add: completed_world_def extracted_world_eq summarize_lambda_handler_def
        summarize_request_def document_request_id Let_def str_truthy_def get_document_def
        document_request_def empty_event_def or_empty_def get_default_def lower_def
        lower_char_def max_length_param_def dict_get_def dict_get_default_def
        summarize_extras_def store_summary_def update_document_status_def set_attrs_def
        item_or_new_def sample_env_sel sample_now_fmt doc_with_def text_attrs_def
        summary_attrs_def)

lemma failed_world_eq:
  "failed_world = \<lparr>table = [''id-x'' \<mapsto> doc_with ''FAILED''
        (text_attrs @ summary_attrs @ [(''errorMessage'', PStr ''Unsupported document format'')])],
      blobs = {report_key}, uuids = 2, ticks = 7,
      calls = [OcrCall BUCKET_NAME report_key, SummarizeCall (PStr ''Hello world'') 500,
               OcrCall BUCKET_NAME report_key],
      logs = []\<rparr>"
  by (simp add: failed_world_def completed_world_eq extract_lambda_handler_def
        document_request_id handle_api_request_def Let_def str_truthy_def get_document_def
        dict_get_def extract_document_def update_document_status_def
        set_attrs_def item_or_new_def failing_ocr_env_def sample_env_sel sample_now_fmt
        doc_with_def text_attrs_def summary_attrs_def)

lemma blank_world_eq:
  "blank_world = \<lparr>table = [''id-x'' \<mapsto> doc_with ''EXTRACTED'' (blank_attrs @ summary_attrs)],
      blobs = {report_key}, uuids = 2, ticks = 7,
      calls = [OcrCall BUCKET_NAME report_key, SummarizeCall (PStr ''Hello world'') 500,
               OcrCall BUCKET_NAME report_key],
      logs = []\<rparr>"
  by (simp add: blank_world_def completed_world_eq extract_lambda_handler_def
        document_request_id handle_api_request_def Let_def str_truthy_def get_document_def
        dict_get_def extract_document_def update_document_status_def store_extracted_text_def
        set_attrs_def item_or_new_def blank_ocr_env_def sample_env_sel sample_now_fmt
        doc_with_def text_attrs_def summary_attrs_def blank_attrs_def)

lemma sample_run_reachable:
  "reachable uploaded_world" "reachable extracted_world" "reachable completed_world"
  "reachable failed_world" "reachable blank_world"
  unfolding blank_world_def failed_world_def completed_world_def extracted_world_def
    uploaded_world_def stored_world_def slot_world_def
  by (intro reachable.intros)+



section \<open>The cached summary\<close>

lemma dict_get_set_attrs_summary:
  "dict_get (set_attrs [(''status'', PStr st), (''updatedAt'', PStr ts), (''summary'', PStr s)] d)
     ''summary'' = PStr s"
  "dict_get (set_attrs [(''status'', PStr st), (''updatedAt'', PStr ts), (''summary'', PStr s)] d)
     ''extractedText'' = dict_get d ''extractedText''"
  "set_attrs [(''status'', PStr st), (''updatedAt'', PStr ts), (''summary'', PStr s)] d \<noteq> []"
  by (simp_all add: set_attrs_def dict_get_def update_conv')

lemma summarize_cached:
  assumes "map_of (or_empty (pathParameters ev)) ''documentId'' = Some i" and "i \<noteq> []"
      and "table w i = Some d" and "d \<noteq> []"
      and "truthy (dict_get d ''extractedText'')"
      and "lower (get_default (or_empty (queryStringParameters ev)) ''entities'' ''false'') \<noteq> ''true''"
      and "lower (get_default (or_empty (queryStringParameters ev)) ''questions'' ''false'') \<noteq> ''true''"
      and "max_length_param env (or_empty (queryStringParameters ev)) = Inr n"
      and "truthy (dict_get d ''summary'')"
  shows "summarize_lambda_handler env ev w
           = (response 200 [(''documentId'', PStr i),
                            (''summary'', dict_get d ''summary''),
                            (''cached'', PBool True)], w)"
  using assms
  by (simp add: summarize_lambda_handler_def summarize_request_def Let_def str_truthy_def
        get_document_def)

lemma summarize_fresh:
  assumes "map_of (or_empty (pathParameters ev)) ''documentId'' = Some i" and "i \<noteq> []"
      and "table w i = Some d" and "d \<noteq> []"
      and "truthy (dict_get d ''extractedText'')"
      and "lower (get_default (or_empty (queryStringParameters ev)) ''entities'' ''false'') \<noteq> ''true''"
      and "lower (get_default (or_empty (queryStringParameters ev)) ''questions'' ''false'') \<noteq> ''true''"
      and "max_length_param env (or_empty (queryStringParameters ev)) = Inr n"
      and "\<not> truthy (dict_get d ''summary'')"
      and "summarize_document env (dict_get d ''extractedText'') n = Inr s"
  shows "summarize_lambda_handler env ev w
           = (response 200 [(''documentId'', PStr i),
                            (''summary'', PStr s),
                            (''wordCount'', dict_get_default d ''wordCount'' (PInt 0)),
                            (''cached'', PBool False)],
              snd (store_summary env i s
                     (w\<lparr>calls := calls w @ [SummarizeCall (dict_get d ''extractedText'') n]\<rparr>)))"
  using assms
  by (simp add: summarize_lambda_handler_def summarize_request_def Let_def str_truthy_def
        get_document_def summarize_extras_def)

lemma table_store_summary:
  "table (snd (store_summary env i s w)) i
     = Some (set_attrs [(''status'', PStr ''COMPLETED''),
                        (''updatedAt'', PStr (isoformat (utcnow env (ticks w)))),
                        (''summary'', PStr s)] (item_or_new w i))"
  by (simp add: store_summary_def update_document_status_def Let_def)

text \<open>
  C8, as the code has it. On a record with non-empty extracted text, a summarize request
  without the entities and questions flags and with a \<open>maxLength\<close> that is absent or
  an integer: when the record has a non-empty summary, that summary is returned with
  \<open>cached: true\<close> and the world is unchanged (no LLM call, no write). Hence, when the
  record has a summary or the LLM adapter returns a non-empty one, a second identical
  request returns the summary of the first with \<open>cached: true\<close> and changes nothing.
\<close>

theorem summarize_returns_cached_summary:
  assumes "map_of (or_empty (pathParameters ev)) ''documentId'' = Some i" and "i \<noteq> []"
      and "table w i = Some d" and "d \<noteq> []"
      and "truthy (dict_get d ''extractedText'')"
      and "lower (get_default (or_empty (queryStringParameters ev)) ''entities'' ''false'') \<noteq> ''true''"
      and "lower (get_default (or_empty (queryStringParameters ev)) ''questions'' ''false'') \<noteq> ''true''"
      and "max_length_param env (or_empty (queryStringParameters ev)) = Inr n"
  shows "(truthy (dict_get d ''summary'')
          \<longrightarrow> summarize_lambda_handler env ev w
                = (response 200 [(''documentId'', PStr i),
                                 (''summary'', dict_get d ''summary''),
                                 (''cached'', PBool True)], w))
       \<and> (truthy (dict_get d ''summary'')
            \<or> (summarize_document env (dict_get d ''extractedText'') n = Inr s \<and> s \<noteq> [])
          \<longrightarrow> statusCode (fst (summarize_lambda_handler env ev w)) = 200
              \<and> summarize_lambda_handler env ev (snd (summarize_lambda_handler env ev w))
                = (response 200
                     [(''documentId'', PStr i),
                      (''summary'', body_field (fst (summarize_lambda_handler env ev w)) ''summary''),
                      (''cached'', PBool True)],
                   snd (summarize_lambda_handler env ev w)))"
proof (intro conjI impI)
  assume "truthy (dict_get d ''summary'')"
  then show "summarize_lambda_handler env ev w
                = (response 200 [(''documentId'', PStr i),
                                 (''summary'', dict_get d ''summary''),
                                 (''cached'', PBool True)], w)"
    using assms by (rule summarize_cached [rotated -1])
next
  assume h: "truthy (dict_get d ''summary'')
            \<or> (summarize_document env (dict_get d ''extractedText'') n = Inr s \<and> s \<noteq> [])"
  show "statusCode (fst (summarize_lambda_handler env ev w)) = 200"
  proof (cases "truthy (dict_get d ''summary'')")
    case True
    then show ?thesis
      using assms by (simp add: summarize_cached response_def)
  next
    case False
    with h have "summarize_document env (dict_get d ''extractedText'') n = Inr s" by simp
    with False show ?thesis
      using assms by (simp add: summarize_fresh response_def)
  qed
  show "summarize_lambda_handler env ev (snd (summarize_lambda_handler env ev w))
                = (response 200
                     [(''documentId'', PStr i),
                      (''summary'', body_field (fst (summarize_lambda_handler env ev w)) ''summary''),
                      (''cached'', PBool True)],
                   snd (summarize_lambda_handler env ev w))"
  proof (cases "truthy (dict_get d ''summary'')")
    case True
    then show ?thesis
      using assms by (simp add: summarize_cached response_def body_field_def dict_get_def)
  next
    case False
    with h have s: "summarize_document env (dict_get d ''extractedText'') n = Inr s" "s \<noteq> []"
      by simp_all
    have first: "summarize_lambda_handler env ev w
           = (response 200 [(''documentId'', PStr i),
                            (''summary'', PStr s),
                            (''wordCount'', dict_get_default d ''wordCount'' (PInt 0)),
                            (''cached'', PBool False)],
              snd (store_summary env i s
                     (w\<lparr>calls := calls w @ [SummarizeCall (dict_get d ''extractedText'') n]\<rparr>)))"
      using assms False s(1) by (rule summarize_fresh)
    let ?w1 = "snd (store_summary env i s
                     (w\<lparr>calls := calls w @ [SummarizeCall (dict_get d ''extractedText'') n]\<rparr>))"
    let ?d1 = "set_attrs [(''status'', PStr ''COMPLETED''),
                          (''updatedAt'', PStr (isoformat (utcnow env (ticks w)))),
                          (''summary'', PStr s)] d"
    have t1: "table ?w1 i = Some ?d1"
      using assms(3) by (simp add: table_store_summary item_or_new_def)
    have second: "summarize_lambda_handler env ev ?w1
           = (response 200 [(''documentId'', PStr i),
                            (''summary'', dict_get ?d1 ''summary''),
                            (''cached'', PBool True)], ?w1)"
      using assms(1,2) t1 dict_get_set_attrs_summary(3) _ assms(6,7,8)
    proof (rule summarize_cached)
      show "truthy (dict_get ?d1 ''extractedText'')"
        using assms(5) by (simp add: dict_get_set_attrs_summary)
      show "truthy (dict_get ?d1 ''summary'')"
        using s(2) by (simp add: dict_get_set_attrs_summary)
    qed
    have bf: "body_field (fst (summarize_lambda_handler env ev w)) ''summary'' = PStr s"
      by (simp add: first body_field_def response_def dict_get_def)
    have sn: "snd (summarize_lambda_handler env ev w) = ?w1"
      by (simp add: first)
    show ?thesis
      unfolding bf sn using second by (simp add: dict_get_set_attrs_summary(1))
  qed
qed

lemma document_request_flags:
  "lower (get_default (or_empty (queryStringParameters document_request)) ''entities'' ''false'')
     \<noteq> ''true''"
  "lower (get_default (or_empty (queryStringParameters document_request)) ''questions'' ''false'')
     \<noteq> ''true''"
  "max_length_param sample_env (or_empty (queryStringParameters document_request)) = Inr 500"
  by (simp_all add: document_request_def empty_event_def or_empty_def get_default_def lower_def
        lower_char_def max_length_param_def)

theorem summarize_returns_cached_summary_witness:
  "summarize_lambda_handler sample_env document_request completed_world
     = (response 200 [(''documentId'', PStr ''id-x''),
                      (''summary'', PStr ''A greeting.''),
                      (''cached'', PBool True)], completed_world)
   \<and> summarize_lambda_handler sample_env document_request
         (snd (summarize_lambda_handler sample_env document_request extracted_world))
     = (response 200
          [(''documentId'', PStr ''id-x''),
           (''summary'',
              body_field (fst (summarize_lambda_handler sample_env document_request extracted_world))
                ''summary''),
           (''cached'', PBool True)],
        snd (summarize_lambda_handler sample_env document_request extracted_world))"
proof -
  have n: "''id-x'' \<noteq> []"
    by simp
  have t1: "table completed_world ''id-x'' = Some (doc_with ''COMPLETED'' (text_attrs @ summary_attrs))"
    by (simp add: completed_world_eq)
  have t2: "table extracted_world ''id-x'' = Some (doc_with ''EXTRACTED'' text_attrs)"
    by (simp add: extracted_world_eq)
  have x1: "truthy (dict_get (doc_with ''COMPLETED'' (text_attrs @ summary_attrs)) ''extractedText'')"
    by (simp add: doc_with_def text_attrs_def dict_get_def)
  have x2: "truthy (dict_get (doc_with ''EXTRACTED'' text_attrs) ''extractedText'')"
    by (simp add: doc_with_def text_attrs_def dict_get_def)
  have s1: "truthy (dict_get (doc_with ''COMPLETED'' (text_attrs @ summary_attrs)) ''summary'')"
           "dict_get (doc_with ''COMPLETED'' (text_attrs @ summary_attrs)) ''summary''
              = PStr ''A greeting.''"
    by (simp_all add: doc_with_def text_attrs_def summary_attrs_def dict_get_def)
  have s2: "truthy (dict_get (doc_with ''EXTRACTED'' text_attrs) ''summary'')
            \<or> (summarize_document sample_env (dict_get (doc_with ''EXTRACTED'' text_attrs)
                   ''extractedText'') 500 = Inr ''A greeting.'' \<and> ''A greeting.'' \<noteq> [])"
    by (simp add: sample_env_sel)
  note first =
    summarize_returns_cached_summary
      [OF document_request_id(1) n t1 sample_doc_attrs(1) x1 document_request_flags,
       THEN conjunct1, THEN mp, OF s1(1)]
  note again =
    summarize_returns_cached_summary
      [OF document_request_id(1) n t2 sample_doc_attrs(1) x2 document_request_flags,
       THEN conjunct2, THEN mp, OF s2, THEN conjunct2]
  show ?thesis
    using first again by (simp add: s1(2))
qed

text \<open>
  C8 as stated fails twice on the sample run. The completed record has a summary, yet a
  request without flags and with \<open>maxLength=abc\<close> is answered with status 500: the
  parameter is converted before the record is looked at. And after a later extraction
  that read a blank page the record still has its summary but no text, and the request
  without flags is answered with status 400.
\<close>

theorem summarize_cached_counterexample:
  "attr completed_world ''id-x'' ''summary'' = PStr ''A greeting.''
   \<and> statusCode (fst (summarize_lambda_handler sample_env bad_length_request completed_world))
       = 500
   \<and> attr blank_world ''id-x'' ''summary'' = PStr ''A greeting.''
   \<and> statusCode (fst (summarize_lambda_handler sample_env document_request blank_world)) = 400"
proof -
  have bad: "decimal_int ''abc'' = Inl (Exn ValueError
               (''invalid literal for int() with base 10: '' @ squote @ ''abc'' @ squote))"
    by (simp add: decimal_int_def is_digit_def)
  have a: "statusCode (fst (summarize_lambda_handler sample_env bad_length_request completed_world))
             = 500"
    by (simp add: summarize_lambda_handler_def summarize_request_def bad_length_request_def
          document_request_def empty_event_def or_empty_def Let_def str_truthy_def
          max_length_param_def sample_env_sel bad response_def)
  have b: "statusCode (fst (summarize_lambda_handler sample_env document_request blank_world))
             = 400"
    by (simp add: summarize_lambda_handler_def summarize_request_def document_request_id
          document_request_flags Let_def str_truthy_def get_document_def blank_world_eq
          doc_with_def blank_attrs_def dict_get_def response_def)
  have c: "attr completed_world ''id-x'' ''summary'' = PStr ''A greeting.''"
          "attr blank_world ''id-x'' ''summary'' = PStr ''A greeting.''"
    by (simp_all add: attr_def completed_world_eq blank_world_eq doc_with_def text_attrs_def
          blank_attrs_def summary_attrs_def dict_get_def)
  show ?thesis
    using a b c by simp
qed


section \<open>Finalizing an upload\<close>







text \<open>
  A body whose \<open>fileSize\<close> is the float 1.5 passes validation and the existence check,
  but \<open>put_item\<close> refuses the item: the answer is status 500 and no record is stored.
\<close>

lemma finalize_upload_float_refused:
  "statusCode (fst (upload_lambda_handler sample_env
      (finalize_request\<lparr>body := Body (PDict [(''documentId'', PStr ''id-''),
                                              (''s3Key'', PStr report_key),
                                              (''filename'', PStr ''report.pdf''),
                                              (''fileSize'', PFloat (Finite (3 / 2)))])\<rparr>)
      stored_world)) = 500
   \<and> table (snd (upload_lambda_handler sample_env
      (finalize_request\<lparr>body := Body (PDict [(''documentId'', PStr ''id-''),
                                              (''s3Key'', PStr report_key),
                                              (''filename'', PStr ''report.pdf''),
                                              (''fileSize'', PFloat (Finite (3 / 2)))])\<rparr>)
      stored_world)) = table stored_world"
  by (simp add: upload_lambda_handler_def finalize_request_def empty_event_def
        handle_upload_request_def loads_body_def Let_def dict_get_def dict_get_default_def
        head_object_def create_document_def document_item_def put_item_error_def
        stored_world_def slot_world_eq report_key_ne response_def)

section \<open>The document identifier taken from a storage key\<close>

lemma split_report_key:
  "split CHR ''/'' report_key
     = [''documents'', ''u1'', ''2024'', ''01'', ''15'', ''id-'', ''report.pdf'']"
  by code_simp

text \<open>
  C1 fails on the code. The upload-slot operation issues the key
  \<open>documents/u1/2024/01/15/id-/report.pdf\<close> with document identifier \<open>id-\<close>. On the
  storage event for that key \<open>handle_s3_event\<close> takes the fourth part of the key, the
  month \<open>01\<close>, as the document identifier: it creates and fills a record \<open>01\<close>, touches
  no record \<open>id-\<close> and leaves the uploaded record as it was.
\<close>

theorem s3_event_takes_month_as_document_id:
  "body_field (fst (upload_lambda_handler sample_env slot_request empty_world)) ''s3Key''
     = PStr report_key
   \<and> body_field (fst (upload_lambda_handler sample_env slot_request empty_world)) ''documentId''
     = PStr ''id-''
   \<and> split CHR ''/'' report_key ! 3 = ''01''
   \<and> split CHR ''/'' report_key ! 5 = ''id-''
   \<and> table uploaded_world ''01'' = None
   \<and> attr (snd (handle_s3_event sample_env (s3_put_event report_key) uploaded_world)) ''01''
       ''status'' = PStr ''EXTRACTED''
   \<and> attr (snd (handle_s3_event sample_env (s3_put_event report_key) uploaded_world)) ''01''
       ''extractedText'' = PStr ''Hello world''
   \<and> table (snd (handle_s3_event sample_env (s3_put_event report_key) uploaded_world)) ''id-''
     = None
   \<and> table (snd (handle_s3_event sample_env (s3_put_event report_key) uploaded_world)) ''id-x''
     = table uploaded_world ''id-x''"
proof -
  have a: "body_field (fst (upload_lambda_handler sample_env slot_request empty_world)) ''s3Key''
             = PStr report_key"
          "body_field (fst (upload_lambda_handler sample_env slot_request empty_world))
             ''documentId'' = PStr ''id-''"
    by (simp_all add: slot_response body_field_def response_def dict_get_def)
  have u: "unquote_plus sample_env report_key = report_key"
    by (simp add: sample_env_def)
  have t: "table (snd (handle_s3_event sample_env (s3_put_event report_key) uploaded_world))
             = (table uploaded_world)(''01'' \<mapsto>
                 [(''documentId'', PStr ''01''), (''status'', PStr ''EXTRACTED''),
                  (''updatedAt'', PStr ''2024-01-15T10:30:00'')] @ text_attrs)"
    by (simp add: handle_s3_event_def s3_put_event_def empty_event_def s3_event_record_def u
          split_report_key Let_def update_document_status_def store_extracted_text_def
          set_attrs_def item_or_new_def uploaded_world_eq sample_env_sel sample_now_fmt
          sample_ocr_def text_attrs_def)
  have w: "table uploaded_world ''01'' = None" "table uploaded_world ''id-'' = None"
    by (simp_all add: uploaded_world_eq)
  show ?thesis
    by (simp add: a split_report_key t attr_def dict_get_def text_attrs_def w)
qed

section \<open>The query history\<close>

lemma add_query_to_history_appends:
  assumes "ddb_append_error env i = None"
      and "table w i = Some d" and "map_of d ''queryHistory'' = Some (PList h)"
  shows "attr (add_query_to_history env i q a w) i ''queryHistory''
           = PList (h @ [PDict [(''question'', PStr q), (''answer'', PStr a),
                                (''timestamp'', PStr (isoformat (utcnow env (ticks w))))]])"
  using assms
  by (simp add: add_query_to_history_def list_append_history_def item_or_new_def Let_def
        attr_def dict_get_def update_conv')

text \<open>
  C2 fails on the code. The record \<open>d1\<close> has one entry in its history. When the store
  refuses the \<open>list_append\<close> update, the \<open>except\<close> branch of \<open>add_query_to_history\<close> sets
  \<open>queryHistory\<close> to the list of the new entry alone: the earlier entry is gone.
\<close>

theorem add_query_to_history_fallback_overwrites:
  "attr alice_world ''d1'' ''queryHistory''
     = PList [PDict [(''question'', PStr ''Who?''), (''answer'', PStr ''Nobody.''),
                     (''timestamp'', PStr ''2024-01-15T10:30:00'')]]
   \<and> attr (add_query_to_history failing_append_env ''d1'' ''What?'' ''This.'' alice_world) ''d1''
       ''queryHistory''
     = PList [PDict [(''question'', PStr ''What?''), (''answer'', PStr ''This.''),
                     (''timestamp'', PStr ''2024-01-15T10:30:00'')]]"
  by (simp add: add_query_to_history_def list_append_history_def item_or_new_def Let_def
        attr_def dict_get_def alice_world_def alice_doc_def failing_append_env_def
        sample_env_def sample_now_fmt)


section \<open>Status of a record that carries extracted text\<close>

lemma table_ok_upd: "table_ok t \<Longrightarrow> text_status_ok d \<Longrightarrow> table_ok (t(i \<mapsto> d))"
  by (simp add: table_ok_def)

lemma table_ok_del: "table_ok t \<Longrightarrow> table_ok (t(i := None))"
  by (simp add: table_ok_def)

lemma table_ok_item_or_new: "table_ok (table w) \<Longrightarrow> text_status_ok (item_or_new w i)"
  by (auto simp: table_ok_def item_or_new_def text_status_ok_def split: option.splits)

lemma text_status_ok_history:
  "text_status_ok d \<Longrightarrow> text_status_ok (AList.update ''queryHistory'' v d)"
  by (simp add: text_status_ok_def update_conv')

lemma processing_ok:
  "table_ok (table w) \<Longrightarrow>
   table_ok (table (snd (update_document_status env i ''PROCESSING'' [] w)))"
  by (simp add: update_document_status_def Let_def table_ok_upd text_status_ok_def set_attrs_def
        update_conv')

lemma failed_ok:
  "table_ok (table w) \<Longrightarrow>
   table_ok (table (snd (update_document_status env i ''FAILED'' [(''errorMessage'', v)] w)))"
  by (simp add: update_document_status_def Let_def table_ok_upd text_status_ok_def set_attrs_def
        update_conv')

lemma store_extracted_text_ok:
  "table_ok (table w) \<Longrightarrow> table_ok (table (snd (store_extracted_text env i t n c w)))"
  by (simp add: store_extracted_text_def update_document_status_def Let_def table_ok_upd
        text_status_ok_def set_attrs_def update_conv')

lemma store_summary_ok:
  "table_ok (table w) \<Longrightarrow> table_ok (table (snd (store_summary env i s w)))"
  by (simp add: store_summary_def update_document_status_def Let_def table_ok_upd
        text_status_ok_def set_attrs_def update_conv')

lemma create_document_ok:
  "table_ok (table w) \<Longrightarrow> table_ok (table (snd (create_document env u f k c s w)))"
  by (simp add: create_document_def document_item_def Let_def table_ok_upd text_status_ok_def
        split: option.splits)

lemma delete_document_ok:
  "table_ok (table w) \<Longrightarrow> table_ok (table (snd (delete_document env i w)))"
  by (simp add: delete_document_def table_ok_del split: option.splits)

lemma delete_blob_table: "table (delete_blob env d w) = table w"
  by (simp add: delete_blob_def Let_def split: pyval.splits option.splits)

lemma add_query_to_history_ok:
  assumes "table_ok (table w)"
  shows "table_ok (table (add_query_to_history env i q a w))"
proof -
  have "text_status_ok (item_or_new (w\<lparr>ticks := Suc (ticks w)\<rparr>) i)"
    using assms by (simp add: table_ok_item_or_new)
  then show ?thesis
    using assms
    by (auto simp: add_query_to_history_def list_append_history_def Let_def
          intro!: table_ok_upd text_status_ok_history
          split: sum.splits option.splits pyval.splits)
qed

lemma s3_event_record_ok:
  "table_ok (table w) \<Longrightarrow> table_ok (table (s3_event_record env r w))"
  by (simp add: s3_event_record_def Let_def processing_ok failed_ok store_extracted_text_ok
        split: sum.splits)

lemma s3_event_loop_ok:
  "table_ok (table w) \<Longrightarrow> table_ok (table (s3_event_loop env rs w))"
  by (induction rs arbitrary: w) (simp_all add: s3_event_record_ok)

lemma extract_document_table: "table (snd (extract_document env d w)) = table w"
  by (simp add: extract_document_def split: option.splits pyval.splits)

lemma handle_api_request_ok:
  assumes "table_ok (table w)"
  shows "table_ok (table (snd (handle_api_request env ev w)))"
proof -
  let ?w1 = "\<lambda>i. snd (update_document_status env i ''PROCESSING'' [] w)"
  have p: "table_ok (table (snd (extract_document env d (?w1 i))))" for d i
    using assms by (simp add: extract_document_table processing_ok)
  show ?thesis
    using assms
    by (auto simp: handle_api_request_def Let_def get_document_def
          split: option.splits sum.splits prod.splits
          intro!: store_extracted_text_ok failed_ok
          dest: arg_cong [where f = snd])
      (metis p snd_conv)+
qed

lemma extract_lambda_handler_ok:
  "table_ok (table w) \<Longrightarrow> table_ok (table (snd (extract_lambda_handler env ev w)))"
  using handle_api_request_ok [of w env ev]
  by (auto simp: extract_lambda_handler_def handle_s3_event_def s3_event_loop_ok
        split: prod.splits sum.splits)

lemma query_lambda_handler_ok:
  "table_ok (table w) \<Longrightarrow> table_ok (table (snd (query_lambda_handler env ev w)))"
  by (auto simp: query_lambda_handler_def query_request_def Let_def get_document_def
        add_query_to_history_ok
        split: prod.splits sum.splits option.splits if_splits)

lemma summarize_extras_table:
  "table (snd (summarize_extras env t e q r w)) = table w"
  by (simp add: summarize_extras_def split: sum.splits prod.splits)

lemma summarize_request_ok:
  assumes "table_ok (table w)"
  shows "table_ok (table (snd (summarize_request env ev w)))"
proof -
  have p: "table_ok (table (snd (summarize_extras env t e q r
             (snd (store_summary env i s (w\<lparr>calls := c\<rparr>))))))" for t e q r i s c
    using assms by (simp add: summarize_extras_table store_summary_ok)
  show ?thesis
    using assms
    by (auto simp: summarize_request_def Let_def get_document_def
          split: option.splits sum.splits prod.splits
          dest: arg_cong [where f = snd])
      (metis p snd_conv)+
qed

lemma summarize_lambda_handler_ok:
  "table_ok (table w) \<Longrightarrow> table_ok (table (snd (summarize_lambda_handler env ev w)))"
  using summarize_request_ok [of w env ev]
  by (auto simp: summarize_lambda_handler_def split: prod.splits sum.splits)

lemma upload_lambda_handler_ok:
  "table_ok (table w) \<Longrightarrow> table_ok (table (snd (upload_lambda_handler env ev w)))"
  by (auto simp: upload_lambda_handler_def handle_upload_request_def
        handle_get_presigned_url_def Let_def create_document_ok
        split: prod.splits sum.splits option.splits pyval.splits if_splits
        dest: arg_cong [where f = snd])
    (metis create_document_ok snd_conv)+

lemma delete_document_handler_ok:
  "table_ok (table w) \<Longrightarrow> table_ok (table (snd (delete_document_handler env ev i w)))"
  by (simp add: delete_document_handler_def Let_def get_document_def delete_document_ok
        delete_blob_table split: option.splits)

lemma reachable_table_ok: "reachable w \<Longrightarrow> table_ok (table w)"
proof (induction rule: reachable.induct)
  case by_start
  show ?case by (simp add: empty_world_def table_ok_def)
next
  case (by_put_object w k)
  then show ?case by simp
next
  case (by_upload w env ev)
  then show ?case by (simp add: upload_lambda_handler_ok)
next
  case (by_extract w env ev)
  then show ?case by (simp add: extract_lambda_handler_ok)
next
  case (by_query w env ev)
  then show ?case by (simp add: query_lambda_handler_ok)
next
  case (by_summarize w env ev)
  then show ?case by (simp add: summarize_lambda_handler_ok)
next
  case (by_delete w env ev i)
  then show ?case by (simp add: delete_document_handler_ok)
qed

text \<open>
  C5, as the code has it. In every reachable state a record that has the
  \<open>extractedText\<close> attribute has status \<open>PROCESSING\<close>, \<open>EXTRACTED\<close>, \<open>COMPLETED\<close> or
  \<open>FAILED\<close>: the text is written together with \<open>EXTRACTED\<close> and no later status update
  removes it.
\<close>

theorem extracted_text_status:
  assumes "reachable w" and "table w i = Some d" and "map_of d ''extractedText'' \<noteq> None"
  shows "dict_get d ''status''
           \<in> {PStr ''PROCESSING'', PStr ''EXTRACTED'', PStr ''COMPLETED'', PStr ''FAILED''}"
proof -
  have "text_status_ok d"
    using reachable_table_ok [OF assms(1)] assms(2) by (simp add: table_ok_def)
  then show ?thesis
    using assms(3) by (auto simp: text_status_ok_def dict_get_def)
qed

theorem extracted_text_status_witness:
  "reachable extracted_world
   \<and> table extracted_world ''id-x'' = Some (doc_with ''EXTRACTED'' text_attrs)
   \<and> map_of (doc_with ''EXTRACTED'' text_attrs) ''extractedText'' \<noteq> None
   \<and> dict_get (doc_with ''EXTRACTED'' text_attrs) ''status''
       \<in> {PStr ''PROCESSING'', PStr ''EXTRACTED'', PStr ''COMPLETED'', PStr ''FAILED''}"
proof -
  have t: "table extracted_world ''id-x'' = Some (doc_with ''EXTRACTED'' text_attrs)"
    by (simp add: extracted_world_eq)
  have x: "map_of (doc_with ''EXTRACTED'' text_attrs) ''extractedText'' \<noteq> None"
    by (simp add: doc_with_def text_attrs_def)
  show ?thesis
    using extracted_text_status [OF sample_run_reachable(2) t x] sample_run_reachable(2) t x
    by simp
qed

text \<open>
  C5 as stated fails. In the sample run the completed record is extracted again and the
  OCR adapter fails: the reachable state has the record with its \<open>extractedText\<close> and
  status \<open>FAILED\<close>.
\<close>

theorem extracted_text_status_counterexample:
  "reachable failed_world
   \<and> attr failed_world ''id-x'' ''extractedText'' = PStr ''Hello world''
   \<and> attr failed_world ''id-x'' ''status'' = PStr ''FAILED''"
proof -
  have a: "attr failed_world ''id-x'' ''extractedText'' = PStr ''Hello world''"
          "attr failed_world ''id-x'' ''status'' = PStr ''FAILED''"
    by (simp_all add: attr_def failed_world_eq doc_with_def text_attrs_def dict_get_def)
  show ?thesis
    using sample_run_reachable(4) a by simp
qed


end
